theory Spec2Isabelle
  imports Complex_Main "HOL-Library.Sublist"
begin

section \<open>JavaScript values used by the sources\<close>

text \<open>
  Strings are \<open>string\<close>. \<open>String.prototype.toLowerCase\<close> and \<open>toUpperCase\<close> are
  modelled on the ASCII letters and leave every other character alone; none of the
  network names the sources compare against contains a character that a non-ASCII
  letter lower-cases to.
\<close>

definition lowerChar :: "char \<Rightarrow> char" where
  "lowerChar c =
     (case map_of (zip ''ABCDEFGHIJKLMNOPQRSTUVWXYZ'' ''abcdefghijklmnopqrstuvwxyz'') c of
        None \<Rightarrow> c | Some d \<Rightarrow> d)"

definition upperChar :: "char \<Rightarrow> char" where
  "upperChar c =
     (case map_of (zip ''abcdefghijklmnopqrstuvwxyz'' ''ABCDEFGHIJKLMNOPQRSTUVWXYZ'') c of
        None \<Rightarrow> c | Some d \<Rightarrow> d)"

definition toLowerCase :: "string \<Rightarrow> string" where
  "toLowerCase s = map lowerChar s"

definition toUpperCase :: "string \<Rightarrow> string" where
  "toUpperCase s = map upperChar s"

text \<open>\<open>s.includes(t)\<close>: \<open>t\<close> occurs in \<open>s\<close> as a contiguous run.\<close>

fun str_includes :: "string \<Rightarrow> string \<Rightarrow> bool" where
  "str_includes [] t = (t = [])"
| "str_includes (c # cs) t = (prefix t (c # cs) \<or> str_includes cs t)"

text \<open>
  What a \<open>throw\<close> or a rejected promise carries: an \<open>Error\<close> with its message, or
  some other value (\<open>error instanceof Error\<close> is false for it).
\<close>

datatype thrown = Error string | NonError

text \<open>\<open>(error as Error).message\<close> inside a template string.\<close>

fun message :: "thrown \<Rightarrow> string" where
  "message (Error m) = m"
| "message NonError = ''undefined''"

text \<open>
  The errors the modelled functions raise themselves, one constructor per
  \<open>throw new Error(...)\<close> of the sources, and \<open>Rethrown\<close> for a rejection of a
  collaborator that the function lets through.
\<close>

datatype error =
    UnsupportedNetwork string
  | KeyDerivationFailure string
  | InvalidNetworkConfig "string list option"
  | DuplicateNetworkName string
  | NetworkNotFound string
  | CannotRemoveActiveNetwork
  | NoActiveNetwork
  | FailedToListWallets
  | Rethrown thrown

section \<open>BlockchainManager: wallet derivation\<close>

type_synonym bytes = "nat list"

record BlockchainWallet =
  bw_address :: string
  bw_privateKey :: string
  bw_mnemonic :: "string option"

record WalletData =
  wd_name :: string
  wd_network :: string
  wd_address :: string
  wd_privateKey :: string
  wd_mnemonic :: "string option"
  wd_createdAt :: string
  wd_filePath :: "string option"
  wd_qrPath :: "string option"
  wd_qrString :: "string option"

text \<open>
  The key libraries (bip39, bip32, ecpair, bitcoinjs-lib, ethers) and the clock are not
  part of the repository. Their results are parameters: \<open>CryptoLib\<close> holds what each
  call of \<open>generateBitcoinWallet\<close> and \<open>generateEVMWallet\<close> returns. A key whose
  \<open>privateKey\<close> is \<open>undefined\<close> and a payment without \<open>address\<close> are \<open>None\<close>.
\<close>

record ECKey =
  key_privateKey :: "bytes option"
  key_publicKey :: bytes

record EthersWallet =
  ew_address :: string
  ew_privateKey :: string
  ew_mnemonic :: "string option"

record CryptoLib =
  bip39_generateMnemonic :: string
  bip39_mnemonicToSeed :: "string \<Rightarrow> bytes"
  bip32_fromSeed_derivePath :: "bytes \<Rightarrow> string \<Rightarrow> ECKey"
  ECPair_makeRandom :: ECKey
  p2wpkh_address :: "bytes \<Rightarrow> string option"
  toHex :: "bytes \<Rightarrow> string"
  randomBytes32 :: bytes
  Wallet_createRandom :: EthersWallet
  Wallet_fromPrivateKey :: "bytes \<Rightarrow> EthersWallet"
  Date_toISOString :: string

definition generateBitcoinWallet :: "CryptoLib \<Rightarrow> bool \<Rightarrow> error + BlockchainWallet" where
  "generateBitcoinWallet lib useMnemonic =
     (if useMnemonic then
        (let mnemonic = bip39_generateMnemonic lib;
             seed = bip39_mnemonicToSeed lib mnemonic;
             child = bip32_fromSeed_derivePath lib seed ''m/84'/0'/0'/0/0''
         in case key_privateKey child of
              None \<Rightarrow> Inl (KeyDerivationFailure ''Failed to generate Bitcoin private key'')
            | Some priv \<Rightarrow>
                (case p2wpkh_address lib (key_publicKey child) of
                   None \<Rightarrow> Inl (KeyDerivationFailure ''Failed to generate Bitcoin address'')
                 | Some address \<Rightarrow>
                     Inr \<lparr>bw_address = address, bw_privateKey = toHex lib priv,
                          bw_mnemonic = Some mnemonic\<rparr>))
      else
        (let keyPair = ECPair_makeRandom lib
         in case key_privateKey keyPair of
              None \<Rightarrow> Inl (KeyDerivationFailure ''Failed to generate Bitcoin private key'')
            | Some priv \<Rightarrow>
                (case p2wpkh_address lib (key_publicKey keyPair) of
                   None \<Rightarrow> Inl (KeyDerivationFailure ''Failed to generate Bitcoin address'')
                 | Some address \<Rightarrow>
                     Inr \<lparr>bw_address = address, bw_privateKey = toHex lib priv,
                          bw_mnemonic = None\<rparr>)))"

definition generateEVMWallet :: "CryptoLib \<Rightarrow> bool \<Rightarrow> error + BlockchainWallet" where
  "generateEVMWallet lib useMnemonic =
     (let wallet = (if useMnemonic then Wallet_createRandom lib
                    else Wallet_fromPrivateKey lib (randomBytes32 lib))
      in Inr \<lparr>bw_address = ew_address wallet, bw_privateKey = ew_privateKey wallet,
              bw_mnemonic = (if useMnemonic then ew_mnemonic wallet else None)\<rparr>)"

record BlockchainConfig =
  bc_name :: string
  bc_symbols :: "string list"
  bc_decimals :: nat
  bc_generateWallet :: "CryptoLib \<Rightarrow> string \<Rightarrow> bool \<Rightarrow> error + WalletData"

definition toWalletData :: "CryptoLib \<Rightarrow> string \<Rightarrow> string \<Rightarrow> BlockchainWallet \<Rightarrow> WalletData" where
  "toWalletData lib name network wallet =
     \<lparr>wd_name = name, wd_network = network, wd_address = bw_address wallet,
      wd_privateKey = bw_privateKey wallet, wd_mnemonic = bw_mnemonic wallet,
      wd_createdAt = Date_toISOString lib,
      wd_filePath = None, wd_qrPath = None, wd_qrString = None\<rparr>"

definition bitcoinConfig :: BlockchainConfig where
  "bitcoinConfig =
     \<lparr>bc_name = ''bitcoin'', bc_symbols = [''BTC''], bc_decimals = 8,
      bc_generateWallet = (\<lambda>lib name useMnemonic.
        case generateBitcoinWallet lib useMnemonic of
          Inl e \<Rightarrow> Inl e
        | Inr wallet \<Rightarrow> Inr (toWalletData lib name ''bitcoin'' wallet))\<rparr>"

definition evmNetworks :: "string list" where
  "evmNetworks = [''ethereum'', ''polygon'', ''bsc'', ''arbitrum'', ''optimism'', ''avalanche'']"

definition evmConfig :: "string \<Rightarrow> BlockchainConfig" where
  "evmConfig network =
     \<lparr>bc_name = network,
      bc_symbols = [if network = ''ethereum'' then ''ETH'' else toUpperCase network],
      bc_decimals = 18,
      bc_generateWallet = (\<lambda>lib name useMnemonic.
        case generateEVMWallet lib useMnemonic of
          Inl e \<Rightarrow> Inl e
        | Inr wallet \<Rightarrow> Inr (toWalletData lib name network wallet))\<rparr>"

text \<open>The \<open>supportedNetworks\<close> map as the constructor leaves it.\<close>

definition initializeNetworks :: "string \<rightharpoonup> BlockchainConfig" where
  "initializeNetworks =
     foldl (\<lambda>m network. m(network \<mapsto> evmConfig network))
       (Map.empty(''bitcoin'' \<mapsto> bitcoinConfig)) evmNetworks"

text \<open>
  \<open>BlockchainManager.createWallet\<close>. Its \<open>catch\<close> logs and rethrows, so the error of
  the generator is the error of the call.
\<close>

definition createWallet :: "CryptoLib \<Rightarrow> string \<Rightarrow> string \<Rightarrow> bool \<Rightarrow> error + WalletData" where
  "createWallet lib name network useMnemonic =
     (case initializeNetworks (toLowerCase network) of
        None \<Rightarrow> Inl (UnsupportedNetwork network)
      | Some networkConfig \<Rightarrow> bc_generateWallet networkConfig lib name useMnemonic)"

definition isNetworkSupported :: "string \<Rightarrow> bool" where
  "isNetworkSupported network = (initializeNetworks (toLowerCase network) \<noteq> None)"

definition getSupportedNetworks :: "string list" where
  "getSupportedNetworks = ''bitcoin'' # evmNetworks"

section \<open>NetworkManager: data\<close>

text \<open>
  A JavaScript number that a division produced: a finite value, or \<open>NaN\<close> (0/0), or an
  infinity (a non-zero value over 0). Counts and millisecond clocks are integers.
\<close>

datatype number = Finite rat | NaN | PosInfinity | NegInfinity

definition js_div :: "rat \<Rightarrow> rat \<Rightarrow> number" where
  "js_div a b =
     (if b \<noteq> 0 then Finite (a / b)
      else if a = 0 then NaN else if 0 < a then PosInfinity else NegInfinity)"

text \<open>\<open>x || d\<close> on an optional number, string or boolean: \<open>undefined\<close>, \<open>0\<close>, the
  empty string and \<open>false\<close> are falsy.\<close>

definition orElseNum :: "int option \<Rightarrow> int \<Rightarrow> int" where
  "orElseNum x d = (case x of None \<Rightarrow> d | Some v \<Rightarrow> if v = 0 then d else v)"

definition orElseStr :: "string option \<Rightarrow> string option \<Rightarrow> string option" where
  "orElseStr x d = (case x of None \<Rightarrow> d | Some v \<Rightarrow> if v = [] then d else Some v)"

definition truthy :: "bool option \<Rightarrow> bool" where
  "truthy x = (x = Some True)"

definition truthyNum :: "int option \<Rightarrow> bool" where
  "truthyNum x = (case x of None \<Rightarrow> False | Some v \<Rightarrow> v \<noteq> 0)"

record NetworkBenchmarkResult =
  br_success :: bool
  br_requestsPerSecond :: number
  br_averageLatency :: number
  br_maxLatency :: int
  br_minLatency :: int
  br_errorRate :: number
  br_timestamp :: int

record NetworkConfig =
  nc_name :: string
  nc_rpcUrl :: string
  nc_chainId :: "int option"
  nc_currency :: string
  nc_explorer :: "string option"
  nc_isTestnet :: "bool option"
  nc_isActive :: "bool option"
  nc_lastValidated :: "int option"
  nc_maxGasPrice :: "string option"
  nc_timeout :: "int option"
  nc_retryAttempts :: "int option"
  nc_benchmarkResults :: "NetworkBenchmarkResult option"
  nc_monitoringEnabled :: "bool option"
  nc_monitoringInterval :: "int option"

record NetworkOptions =
  no_name :: string
  no_rpcUrl :: string
  no_chainId :: "int option"
  no_currency :: "string option"
  no_explorer :: "string option"
  no_testnet :: "bool option"
  no_timeout :: "int option"
  no_maxGasPrice :: "string option"
  no_retryAttempts :: "int option"

record NetworkValidationResult =
  vr_isValid :: bool
  vr_chainId :: "int option"
  vr_errors :: "string list"
  vr_warnings :: "string list"
  vr_latency :: "int option"

record NetworkTestResult =
  tr_success :: bool
  tr_latency :: "int option"
  tr_chainId :: "int option"
  tr_error :: "string option"
  tr_timestamp :: int
  tr_blockHeight :: "int option"

record NetworkSwitchResult =
  sr_previousNetwork :: "string option"
  sr_newNetwork :: string
  sr_success :: bool

record NetworkStatus =
  st_name :: string
  st_isConnected :: bool
  st_blockNumber :: int
  st_gasPrice :: string
  st_chainId :: int
  st_peers :: int
  st_isSyncing :: bool
  st_lastChecked :: int

text \<open>
  The manager's fields and the file at \<open>configPath\<close>. \<open>configFile = None\<close> is the
  missing file (\<open>ENOENT\<close>); a present file holds a JSON array of configurations. A
  cached provider is represented by the URL it was created with. \<open>trace\<close> records,
  oldest first, the effects a caller of the class can observe from outside.
\<close>

datatype event =
    Saved "NetworkConfig list"
  | Validated string
  | Slept int
  | Tested string bool

record NetworkManager =
  configFile :: "NetworkConfig list option"
  providers :: "string \<rightharpoonup> string"
  activeNetwork :: "string option"
  trace :: "event list"

definition emit :: "event \<Rightarrow> NetworkManager \<Rightarrow> NetworkManager" where
  "emit e s = s\<lparr>trace := trace s @ [e]\<rparr>"

text \<open>The reply of one JSON-RPC call: the promise rejects or resolves.\<close>

datatype 'a reply = Rejects thrown | Resolves 'a

text \<open>\<open>Promise.all\<close> of two calls; of two rejections the one listed first is reported.\<close>

fun promise_all2 :: "'a reply \<Rightarrow> 'b reply \<Rightarrow> ('a \<times> 'b) reply" where
  "promise_all2 (Rejects t) _ = Rejects t"
| "promise_all2 (Resolves _) (Rejects t) = Rejects t"
| "promise_all2 (Resolves a) (Resolves b) = Resolves (a, b)"

text \<open>\<open>Promise.race\<close> of a call that settles after \<open>ms\<close> milliseconds against a timer
  that rejects with \<open>msg\<close> after \<open>limit\<close> milliseconds.\<close>

definition race_timeout :: "'a reply \<Rightarrow> int \<Rightarrow> int \<Rightarrow> string \<Rightarrow> 'a reply" where
  "race_timeout r ms limit msg = (if ms < limit then r else Rejects (Error msg))"

section \<open>NetworkManager: the registry file\<close>

definition saveNetworks :: "NetworkManager \<Rightarrow> NetworkConfig list \<Rightarrow> NetworkManager" where
  "saveNetworks s networks = emit (Saved networks) (s\<lparr>configFile := Some networks\<rparr>)"

definition loadNetworks :: "NetworkManager \<Rightarrow> NetworkConfig list \<times> NetworkManager" where
  "loadNetworks s =
     (case configFile s of
        None \<Rightarrow> ([], saveNetworks s [])
      | Some networks \<Rightarrow> (networks, s))"

text \<open>The collection an observer reads from the file.\<close>

definition persisted :: "NetworkManager \<Rightarrow> NetworkConfig list" where
  "persisted s = (case configFile s of None \<Rightarrow> [] | Some networks \<Rightarrow> networks)"

definition getProvider :: "NetworkManager \<Rightarrow> string \<Rightarrow> (error + string) \<times> NetworkManager" where
  "getProvider s networkName =
     (case providers s networkName of
        Some url \<Rightarrow> (Inr url, s)
      | None \<Rightarrow>
          (let (networks, s1) = loadNetworks s
           in case find (\<lambda>n. nc_name n = networkName) networks of
                None \<Rightarrow> (Inl (NetworkNotFound networkName), s1)
              | Some network \<Rightarrow>
                  (Inr (nc_rpcUrl network),
                   s1\<lparr>providers := (providers s1)(networkName \<mapsto> nc_rpcUrl network)\<rparr>)))"

fun findIndex :: "('a \<Rightarrow> bool) \<Rightarrow> 'a list \<Rightarrow> nat option" where
  "findIndex P [] = None"
| "findIndex P (x # xs) =
     (if P x then Some 0 else map_option Suc (findIndex P xs))"

text \<open>\<open>xs.splice(i, 1)\<close> for an index inside the array.\<close>

definition splice1 :: "nat \<Rightarrow> 'a list \<Rightarrow> 'a list" where
  "splice1 i xs = take i xs @ drop (Suc i) xs"

section \<open>NetworkManager: validation\<close>

text \<open>Decimal rendering of a number inside a template string.\<close>

function showNat :: "nat \<Rightarrow> string" where
  "showNat n =
     (if n < 10 then [''0123456789'' ! n]
      else showNat (n div 10) @ [''0123456789'' ! (n mod 10)])"
  by pat_completeness auto
termination
  by (relation "measure id") auto

definition showInt :: "int \<Rightarrow> string" where
  "showInt i = (if i < 0 then ''-'' @ showNat (nat (- i)) else showNat (nat i))"

text \<open>
  What the collaborators answer during one call of \<open>validateNetwork\<close>: creating the
  provider and detecting the network (the chain id, and the time the answer takes), the
  block height and gas price (in wei) fetched together, the second block-height call
  that is timed, and ethers' unit conversions.
\<close>

record ValidationEnv =
  ve_getNetwork :: "int reply"
  ve_getNetwork_ms :: int
  ve_getBlockNumber :: "int reply"
  ve_getGasPrice :: "int reply"
  ve_latencyCall :: "int reply"
  ve_latency_ms :: int
  ve_parseUnits_gwei :: "string \<Rightarrow> int reply"
  ve_formatUnits_gwei :: "int \<Rightarrow> string"

text \<open>The outer \<open>catch\<close> of \<open>validateNetwork\<close>: one error message per failure class.\<close>

definition connectionError :: "thrown \<Rightarrow> string" where
  "connectionError t =
     (case t of
        Error m \<Rightarrow>
          (if str_includes m ''timeout'' then
             ''Connection timed out. The RPC endpoint might be down or responding slowly.''
           else if str_includes m ''getaddrinfo'' then
             ''DNS resolution failed. Please check if the RPC URL is correct.''
           else if str_includes m ''ECONNREFUSED'' then
             ''Connection refused. The RPC endpoint might be down or blocking requests.''
           else ''Connection failed: '' @ m)
      | NonError \<Rightarrow> ''Unknown connection error occurred'')"

text \<open>
  The inner \<open>try\<close> block, entered once the chain id is known. It yields the errors and
  warnings pushed and the latency measured up to the point where it ends or throws; its
  \<open>catch\<close> appends one more warning.
\<close>

definition additionalChecks ::
  "NetworkOptions \<Rightarrow> ValidationEnv \<Rightarrow> int \<Rightarrow> string list \<times> string list \<times> int option" where
  "additionalChecks options env chainId =
     (case promise_all2 (ve_getBlockNumber env) (ve_getGasPrice env) of
        Rejects t \<Rightarrow> ([], [''Additional checks failed: '' @ message t], None)
      | Resolves (blockNumber, gasPrice) \<Rightarrow>
          (let errors =
                 (case no_chainId options of
                    None \<Rightarrow> []
                  | Some expected \<Rightarrow>
                      (if expected \<noteq> 0 \<and> expected \<noteq> chainId
                       then [''Chain ID mismatch: expected '' @ showInt expected
                               @ '', got '' @ showInt chainId]
                       else []));
               warnings1 =
                 (if blockNumber = 0
                  then [''Network might be inactive (block number is 0)''] else [])
           in case ve_latencyCall env of
                Rejects t \<Rightarrow>
                  (errors, warnings1 @ [''Additional checks failed: '' @ message t], None)
              | Resolves _ \<Rightarrow>
                  (let measureLatency = ve_latency_ms env;
                       warnings2 = warnings1 @
                         (if measureLatency > 1000
                          then [''High latency detected: '' @ showInt measureLatency @ ''ms'']
                          else [])
                   in case orElseStr (no_maxGasPrice options) None of
                        None \<Rightarrow> (errors, warnings2, Some measureLatency)
                      | Some maxGasPrice \<Rightarrow>
                          (case ve_parseUnits_gwei env maxGasPrice of
                             Rejects t \<Rightarrow>
                               (errors,
                                warnings2 @ [''Additional checks failed: '' @ message t],
                                Some measureLatency)
                           | Resolves maxGwei \<Rightarrow>
                               (errors,
                                warnings2 @
                                  (if gasPrice > maxGwei
                                   then [''Current gas price ('' @ ve_formatUnits_gwei env gasPrice
                                           @ '' gwei) exceeds specified maximum'']
                                   else []),
                                Some measureLatency)))))"

definition validateNetwork :: "NetworkOptions \<Rightarrow> ValidationEnv \<Rightarrow> NetworkValidationResult" where
  "validateNetwork options env =
     (case race_timeout (ve_getNetwork env) (ve_getNetwork_ms env) 10000
             ''Network detection timeout'' of
        Rejects t \<Rightarrow>
          \<lparr>vr_isValid = False, vr_chainId = None, vr_errors = [connectionError t],
           vr_warnings = [], vr_latency = None\<rparr>
      | Resolves chainId \<Rightarrow>
          (if chainId \<noteq> 0 then
             (let (errors, warnings, measureLatency) = additionalChecks options env chainId
              in \<lparr>vr_isValid = (length errors = 0), vr_chainId = Some chainId,
                  vr_errors = errors, vr_warnings = warnings, vr_latency = measureLatency\<rparr>)
           else
             \<lparr>vr_isValid = True, vr_chainId = Some chainId, vr_errors = [],
              vr_warnings = [], vr_latency = None\<rparr>))"

section \<open>NetworkManager: add, switch, remove\<close>

text \<open>
  The \<open>while (retryCount < maxRetries)\<close> loop of \<open>addNetwork\<close>. \<open>attempt i\<close> is the
  outcome of the call of \<open>validateNetwork\<close> made when \<open>retryCount = i\<close>: a thrown value
  or a result. The loop leaves \<open>validation\<close> as \<open>None\<close> when it never runs.
\<close>

function addNetwork_retry ::
  "(nat \<Rightarrow> thrown + NetworkValidationResult) \<Rightarrow> string \<Rightarrow> int \<Rightarrow> int \<Rightarrow> NetworkManager
     \<Rightarrow> (thrown + NetworkValidationResult option) \<times> NetworkManager" where
  "addNetwork_retry attempt url maxRetries retryCount s =
     (if retryCount < maxRetries then
        (let s1 = emit (Validated url) s
         in case attempt (nat retryCount) of
              Inr validation \<Rightarrow> (Inr (Some validation), s1)
            | Inl e \<Rightarrow>
                (if retryCount + 1 = maxRetries then (Inl e, s1)
                 else addNetwork_retry attempt url maxRetries (retryCount + 1)
                        (emit (Slept 1000) s1)))
      else (Inr None, s))"
  by pat_completeness auto
termination
  by (relation "measure (\<lambda>(attempt, url, maxRetries, retryCount, s). nat (maxRetries - retryCount))")
     auto

text \<open>
  \<open>addNetwork\<close>. \<open>envs i\<close> is what the collaborators answer during the validation
  attempt numbered \<open>i\<close>; \<open>now\<close> is the clock. \<open>validateNetwork\<close> returns a result on every
  path, so each attempt is an \<open>Inr\<close>.
\<close>

definition addNetwork ::
  "NetworkManager \<Rightarrow> int \<Rightarrow> (nat \<Rightarrow> ValidationEnv) \<Rightarrow> NetworkOptions
     \<Rightarrow> (error + NetworkConfig) \<times> NetworkManager" where
  "addNetwork s now envs options =
     (let maxRetries = orElseNum (no_retryAttempts options) 3;
          (looped, s1) = addNetwork_retry (\<lambda>i. Inr (validateNetwork options (envs i)))
                           (no_rpcUrl options) maxRetries 0 s
      in case looped of
           Inl e \<Rightarrow> (Inl (Rethrown e), s1)
         | Inr None \<Rightarrow> (Inl (InvalidNetworkConfig None), s1)
         | Inr (Some validation) \<Rightarrow>
             (if \<not> vr_isValid validation
              then (Inl (InvalidNetworkConfig (Some (vr_errors validation))), s1)
              else
                (let newNetwork =
                       \<lparr>nc_name = no_name options,
                        nc_rpcUrl = no_rpcUrl options,
                        nc_chainId = (if truthyNum (no_chainId options) then no_chainId options
                                      else vr_chainId validation),
                        nc_currency = (case orElseStr (no_currency options) None of
                                         None \<Rightarrow> ''ETH'' | Some c \<Rightarrow> c),
                        nc_explorer = no_explorer options,
                        nc_isTestnet = Some (truthy (no_testnet options)),
                        nc_isActive = Some False,
                        nc_lastValidated = Some now,
                        nc_maxGasPrice = None,
                        nc_timeout = Some (orElseNum (no_timeout options) 10000),
                        nc_retryAttempts = Some (orElseNum (no_retryAttempts options) 3),
                        nc_benchmarkResults = None,
                        nc_monitoringEnabled = None,
                        nc_monitoringInterval = None\<rparr>;
                     (networks, s2) = loadNetworks s1
                 in if list_ex (\<lambda>n. nc_name n = nc_name newNetwork) networks
                    then (Inl (DuplicateNetworkName (nc_name newNetwork)), s2)
                    else (Inr newNetwork, saveNetworks s2 (networks @ [newNetwork])))))"

text \<open>\<open>xs.join(sep)\<close>, and a name between single quotes.\<close>

fun join :: "string \<Rightarrow> string list \<Rightarrow> string" where
  "join sep [] = []"
| "join sep [x] = x"
| "join sep (x # y # ys) = x @ sep @ join sep (y # ys)"

definition quoted :: "string \<Rightarrow> string" where
  "quoted n = [CHR 0x27] @ n @ [CHR 0x27]"

text \<open>The message of an error that a \<open>catch\<close> turns into a string.\<close>

definition errorMessage :: "error \<Rightarrow> string" where
  "errorMessage e =
     (case e of
        UnsupportedNetwork n \<Rightarrow> ''Unsupported blockchain network: '' @ n
      | KeyDerivationFailure m \<Rightarrow> m
      | InvalidNetworkConfig errs \<Rightarrow>
          ''Invalid network configuration: '' @
            (case errs of None \<Rightarrow> ''undefined'' | Some es \<Rightarrow> join '', '' es)
      | DuplicateNetworkName n \<Rightarrow> ''Network '' @ quoted n @ '' already exists''
      | NetworkNotFound n \<Rightarrow> ''Network '' @ quoted n @ '' not found''
      | CannotRemoveActiveNetwork \<Rightarrow> ''Cannot remove active network''
      | NoActiveNetwork \<Rightarrow> ''No network specified or active''
      | FailedToListWallets \<Rightarrow> ''Failed to list wallets''
      | Rethrown t \<Rightarrow> message t)"

text \<open>
  What the provider of the tested network answers during one call of \<open>testNetwork\<close>, and
  the time after which both answers are in.
\<close>

record TestEnv =
  te_getNetwork :: "int reply"
  te_getBlockNumber :: "int reply"
  te_ms :: int

definition failedTest :: "int \<Rightarrow> string \<Rightarrow> NetworkTestResult" where
  "failedTest now msg =
     \<lparr>tr_success = False, tr_latency = None, tr_chainId = None, tr_error = Some msg,
      tr_timestamp = now, tr_blockHeight = None\<rparr>"

text \<open>\<open>testNetwork\<close>: every failure is caught and returned as a result.\<close>

definition testNetwork ::
  "NetworkManager \<Rightarrow> int \<Rightarrow> TestEnv \<Rightarrow> string option \<Rightarrow> int option
     \<Rightarrow> NetworkTestResult \<times> NetworkManager" where
  "testNetwork s now env name timeout =
     (case orElseStr name (orElseStr (activeNetwork s) None) of
        None \<Rightarrow> (failedTest now (errorMessage NoActiveNetwork), s)
      | Some networkName \<Rightarrow>
          (case getProvider s networkName of
             (Inl e, s1) \<Rightarrow>
               (failedTest now (errorMessage e), emit (Tested networkName False) s1)
           | (Inr url, s1) \<Rightarrow>
               (case race_timeout (promise_all2 (te_getNetwork env) (te_getBlockNumber env))
                       (te_ms env) (orElseNum timeout 5000) ''Connection timeout'' of
                  Rejects t \<Rightarrow>
                    (failedTest now (message t), emit (Tested networkName False) s1)
                | Resolves (chainId, blockNumber) \<Rightarrow>
                    (\<lparr>tr_success = True, tr_latency = Some (te_ms env),
                      tr_chainId = Some chainId, tr_error = None, tr_timestamp = now,
                      tr_blockHeight = Some blockNumber\<rparr>,
                     emit (Tested networkName True) s1))))"

definition switchNetwork ::
  "NetworkManager \<Rightarrow> int \<Rightarrow> TestEnv \<Rightarrow> string \<Rightarrow> (error + NetworkSwitchResult) \<times> NetworkManager" where
  "switchNetwork s now env name =
     (let (networks, s1) = loadNetworks s
      in case find (\<lambda>n. nc_name n = name) networks of
           None \<Rightarrow> (Inl (NetworkNotFound name), s1)
         | Some network \<Rightarrow>
             (let previousNetwork = map_option nc_name (find (\<lambda>n. truthy (nc_isActive n)) networks);
                  (tested, s2) = testNetwork s1 now env (Some name) None;
                  networks' = map (\<lambda>n. n\<lparr>nc_isActive := Some (nc_name n = name)\<rparr>) networks;
                  s3 = saveNetworks s2 networks'
              in (Inr \<lparr>sr_previousNetwork = previousNetwork, sr_newNetwork = name,
                       sr_success = True\<rparr>,
                  s3\<lparr>activeNetwork := Some name\<rparr>)))"

definition removeNetwork :: "NetworkManager \<Rightarrow> string \<Rightarrow> (error + unit) \<times> NetworkManager" where
  "removeNetwork s name =
     (let (networks, s1) = loadNetworks s
      in case findIndex (\<lambda>n. nc_name n = name) networks of
           None \<Rightarrow> (Inl (NetworkNotFound name), s1)
         | Some index \<Rightarrow>
             (if truthy (nc_isActive (networks ! index))
              then (Inl CannotRemoveActiveNetwork, s1)
              else
                (let s2 = saveNetworks s1 (splice1 index networks)
                 in (Inr (), s2\<lparr>providers := (providers s2)(name := None)\<rparr>))))"

text \<open>
  A caller's sequence of registry calls, each with the clock and the answers of the
  outside world it meets, run one after the other; a call that throws leaves the state
  it reached.
\<close>

datatype call =
    AddNetwork int "nat \<Rightarrow> ValidationEnv" NetworkOptions
  | SwitchNetwork int TestEnv string
  | RemoveNetwork string

fun step :: "NetworkManager \<Rightarrow> call \<Rightarrow> NetworkManager" where
  "step s (AddNetwork now envs options) = snd (addNetwork s now envs options)"
| "step s (SwitchNetwork now env name) = snd (switchNetwork s now env name)"
| "step s (RemoveNetwork name) = snd (removeNetwork s name)"

definition run :: "NetworkManager \<Rightarrow> call list \<Rightarrow> NetworkManager" where
  "run s calls = foldl step s calls"

definition activeCount :: "NetworkConfig list \<Rightarrow> nat" where
  "activeCount networks = length (filter (\<lambda>n. truthy (nc_isActive n)) networks)"

text \<open>A registry as \<open>addNetwork\<close> keeps it: names are unique and at most one entry is
  active.\<close>

definition wellFormed :: "NetworkConfig list \<Rightarrow> bool" where
  "wellFormed networks = (distinct (map nc_name networks) \<and> activeCount networks \<le> 1)"

section \<open>NetworkManager: status and cleanup\<close>

text \<open>
  What the provider of a network answers during one call of \<open>getNetworkStatus\<close>: the four
  calls awaited together, in the order of the source, then the peer count (already
  read as a number), and ethers' formatting of the gas price.
\<close>

record StatusEnv =
  se_getBlockNumber :: "int reply"
  se_getNetwork :: "int reply"
  se_getGasPrice :: "int reply"
  se_eth_syncing :: "bool reply"
  se_net_peerCount :: "int reply"
  se_formatUnits_gwei :: "int \<Rightarrow> string"

text \<open>\<open>getNetworkStatus\<close>: a status with \<open>isConnected: true\<close>, or the error rethrown.\<close>

definition getNetworkStatus ::
  "NetworkManager \<Rightarrow> int \<Rightarrow> StatusEnv \<Rightarrow> string option \<Rightarrow> (error + NetworkStatus) \<times> NetworkManager" where
  "getNetworkStatus s now env name =
     (case orElseStr name (orElseStr (activeNetwork s) None) of
        None \<Rightarrow> (Inl NoActiveNetwork, s)
      | Some networkName \<Rightarrow>
          (case getProvider s networkName of
             (Inl e, s1) \<Rightarrow> (Inl e, s1)
           | (Inr url, s1) \<Rightarrow>
               (case promise_all2
                       (promise_all2 (se_getBlockNumber env) (se_getNetwork env))
                       (promise_all2 (se_getGasPrice env) (se_eth_syncing env)) of
                  Rejects t \<Rightarrow> (Inl (Rethrown t), s1)
                | Resolves ((blockNumber, chainId), (gasPrice, syncing)) \<Rightarrow>
                    (case se_net_peerCount env of
                       Rejects t \<Rightarrow> (Inl (Rethrown t), s1)
                     | Resolves peers \<Rightarrow>
                         (Inr \<lparr>st_name = networkName, st_isConnected = True,
                               st_blockNumber = blockNumber,
                               st_gasPrice = se_formatUnits_gwei env gasPrice,
                               st_chainId = chainId, st_peers = peers,
                               st_isSyncing = syncing, st_lastChecked = now\<rparr>,
                          s1)))))"

record CleanupOptions =
  co_inactive :: "int option"
  co_unvalidated :: "int option"

text \<open>
  One turn of the \<open>for\<close> loop of \<open>cleanup\<close>, in two parts. A call that throws inside the
  \<open>try\<close> ends the turn with the removed list as it is. \<open>statuses\<close> gives, by network
  name, what that network's provider answers.
\<close>

definition cleanup_remove ::
  "NetworkConfig \<Rightarrow> string list \<Rightarrow> NetworkManager \<Rightarrow> string list \<times> NetworkManager" where
  "cleanup_remove network removed s =
     (case removeNetwork s (nc_name network) of
        (Inl e, s1) \<Rightarrow> (removed, s1)
      | (Inr _, s1) \<Rightarrow> (removed @ [nc_name network], s1))"

definition cleanup_unvalidated ::
  "int \<Rightarrow> CleanupOptions \<Rightarrow> NetworkConfig \<Rightarrow> string list \<Rightarrow> NetworkManager
     \<Rightarrow> string list \<times> NetworkManager" where
  "cleanup_unvalidated now options network removed s =
     (case (co_unvalidated options, nc_lastValidated network) of
        (Some unvalidated, Some lastValidated) \<Rightarrow>
          (if unvalidated \<noteq> 0 then
             (let daysSinceValidation =
                    (of_int (now - lastValidated) :: rat) / (1000 * 60 * 60 * 24)
              in if daysSinceValidation > of_int unvalidated
                 then cleanup_remove network removed s
                 else (removed, s))
           else (removed, s))
      | _ \<Rightarrow> (removed, s))"

definition cleanup_network ::
  "int \<Rightarrow> (string \<Rightarrow> StatusEnv) \<Rightarrow> CleanupOptions \<Rightarrow> NetworkConfig \<Rightarrow> string list
     \<Rightarrow> NetworkManager \<Rightarrow> string list \<times> NetworkManager" where
  "cleanup_network now statuses options network removed s =
     (if truthyNum (co_inactive options) then
        (case getNetworkStatus s now (statuses (nc_name network)) (Some (nc_name network)) of
           (Inl e, s1) \<Rightarrow> (removed, s1)
         | (Inr status, s1) \<Rightarrow>
             (if \<not> st_isConnected status then cleanup_remove network removed s1
              else cleanup_unvalidated now options network removed s1))
      else cleanup_unvalidated now options network removed s)"

fun cleanup_loop ::
  "int \<Rightarrow> (string \<Rightarrow> StatusEnv) \<Rightarrow> CleanupOptions \<Rightarrow> NetworkConfig list \<Rightarrow> string list
     \<Rightarrow> NetworkManager \<Rightarrow> string list \<times> NetworkManager" where
  "cleanup_loop now statuses options [] removed s = (removed, s)"
| "cleanup_loop now statuses options (network # rest) removed s =
     (let (removed', s') = cleanup_network now statuses options network removed s
      in cleanup_loop now statuses options rest removed' s')"

definition cleanup ::
  "NetworkManager \<Rightarrow> int \<Rightarrow> (string \<Rightarrow> StatusEnv) \<Rightarrow> CleanupOptions
     \<Rightarrow> string list \<times> NetworkManager" where
  "cleanup s now statuses options =
     (let (networks, s1) = loadNetworks s
      in cleanup_loop now statuses options networks [] s1)"

section \<open>NetworkManager: benchmark\<close>

text \<open>
  One turn of the benchmark loop as the clock sees it: the reply of \<open>getBlockNumber\<close>,
  the milliseconds it took, and by how many milliseconds the 100 ms pause overran.
  \<open>be_load_ms\<close> is the time \<open>loadNetworks\<close> takes after \<open>startTime\<close> is read, and
  \<open>be_exit_ms\<close> the time between the last test of the loop and the final reading of the
  clock.
\<close>

record BenchCall =
  bn_reply :: "int reply"
  bn_ms :: nat
  bn_overrun :: nat

record BenchEnv =
  be_load_ms :: nat
  be_calls :: "nat \<Rightarrow> BenchCall"
  be_exit_ms :: nat

text \<open>
  The \<open>while (Date.now() - startTime < duration * 1000)\<close> loop. \<open>elapsed\<close> is
  \<open>Date.now() - startTime\<close> at the test, \<open>i\<close> counts the calls issued so far; both are
  returned with \<open>results\<close>, \<open>errors\<close> and \<open>requestCount\<close>.
\<close>

function benchmark_loop ::
  "BenchEnv \<Rightarrow> int \<Rightarrow> nat \<Rightarrow> nat \<Rightarrow> nat list \<Rightarrow> thrown list \<Rightarrow> nat
     \<Rightarrow> nat \<times> nat \<times> nat list \<times> thrown list \<times> nat" where
  "benchmark_loop env duration elapsed i results errors requestCount =
     (if int elapsed < duration * 1000 then
        (case bn_reply (be_calls env i) of
           Resolves blockNumber \<Rightarrow>
             benchmark_loop env duration
               (elapsed + bn_ms (be_calls env i) + 100 + bn_overrun (be_calls env i)) (Suc i)
               (results @ [bn_ms (be_calls env i)]) errors (Suc requestCount)
         | Rejects t \<Rightarrow>
             benchmark_loop env duration
               (elapsed + bn_ms (be_calls env i) + 100 + bn_overrun (be_calls env i)) (Suc i)
               results (errors @ [t]) requestCount)
      else (elapsed, i, results, errors, requestCount))"
  by pat_completeness auto
termination
  by (relation "measure (\<lambda>(env, duration, elapsed, i, results, errors, requestCount).
        nat (duration * 1000) - elapsed)") auto

text \<open>\<open>Math.max(...results)\<close> and \<open>Math.min(...results)\<close>, with the \<open>0\<close> of the empty case.\<close>

fun maxLatency :: "nat list \<Rightarrow> nat" where
  "maxLatency [] = 0"
| "maxLatency (x # xs) = foldl max x xs"

fun minLatency :: "nat list \<Rightarrow> nat" where
  "minLatency [] = 0"
| "minLatency (x # xs) = foldl min x xs"

text \<open>\<open>network.benchmarkResults = ...\<close> on the entry that \<open>find\<close> returned: the first one
  with the name.\<close>

fun updateFirst :: "('a \<Rightarrow> bool) \<Rightarrow> ('a \<Rightarrow> 'a) \<Rightarrow> 'a list \<Rightarrow> 'a list" where
  "updateFirst P f [] = []"
| "updateFirst P f (x # xs) = (if P x then f x # xs else x # updateFirst P f xs)"

definition benchmarkNetwork ::
  "NetworkManager \<Rightarrow> int \<Rightarrow> BenchEnv \<Rightarrow> string \<Rightarrow> int
     \<Rightarrow> (error + NetworkBenchmarkResult) \<times> NetworkManager" where
  "benchmarkNetwork s now env name duration =
     (case getProvider s name of
        (Inl e, s1) \<Rightarrow> (Inl e, s1)
      | (Inr url, s1) \<Rightarrow>
          (let (networks, s2) = loadNetworks s1
           in case find (\<lambda>n. nc_name n = name) networks of
                None \<Rightarrow> (Inl (NetworkNotFound name), s2)
              | Some network \<Rightarrow>
                  (let (elapsed, i, results, errors, requestCount) =
                         benchmark_loop env duration (be_load_ms env) 0 [] [] 0;
                       totalTime = (of_nat (elapsed + be_exit_ms env) :: rat) / 1000;
                       benchmarkResult =
                         \<lparr>br_success = (length errors = 0),
                          br_requestsPerSecond = js_div (of_nat requestCount) totalTime,
                          br_averageLatency =
                            (if length results > 0
                             then js_div (of_nat (sum_list results)) (of_nat (length results))
                             else Finite 0),
                          br_maxLatency = int (maxLatency results),
                          br_minLatency = int (minLatency results),
                          br_errorRate =
                            (if requestCount > 0
                             then js_div (of_nat (length errors)) (of_nat requestCount)
                             else Finite 1),
                          br_timestamp = now\<rparr>
                   in (Inr benchmarkResult,
                       saveNetworks s2
                         (updateFirst (\<lambda>n. nc_name n = name)
                            (\<lambda>n. n\<lparr>nc_benchmarkResults := Some benchmarkResult\<rparr>) networks)))))"

text \<open>The calls that resolved and the calls that rejected among the first \<open>n\<close> liveness
  calls of a benchmark run.\<close>

definition resolved :: "'a reply \<Rightarrow> bool" where
  "resolved r = (case r of Resolves v \<Rightarrow> True | Rejects t \<Rightarrow> False)"

definition successes :: "BenchEnv \<Rightarrow> nat \<Rightarrow> nat" where
  "successes env n = length (filter (\<lambda>k. resolved (bn_reply (be_calls env k))) [0..<n])"

definition failures :: "BenchEnv \<Rightarrow> nat \<Rightarrow> nat" where
  "failures env n = length (filter (\<lambda>k. \<not> resolved (bn_reply (be_calls env k))) [0..<n])"

section \<open>WalletManager: the wallet store and import\<close>

record WalletFilter =
  wf_name :: "string option"
  wf_network :: "string option"
  wf_date :: "string option"
  wf_hash :: "string option"

record WalletImportResult =
  ir_imported :: nat
  ir_skipped :: nat

text \<open>
  The \<open>.json\<close> files under \<open>walletsPath\<close>, in the order \<open>glob\<close> lists them: the file name
  and the wallet its text parses to, or \<open>None\<close> for a text on which \<open>JSON.parse\<close> throws.
  The outside world of the store: the time value \<open>new Date(text)\<close> has (\<open>None\<close> for an
  invalid date), and the error, if any, with which writing a file of a given name fails.
\<close>

type_synonym WalletStore = "(string \<times> WalletData option) list"

record WalletEnv =
  we_Date_parse :: "string \<Rightarrow> int option"
  we_write_fails :: "string \<Rightarrow> thrown option"

definition matchesFilter :: "WalletEnv \<Rightarrow> WalletData \<Rightarrow> WalletFilter \<Rightarrow> bool" where
  "matchesFilter env wallet criteria =
     (if (case orElseStr (wf_network criteria) None of
            None \<Rightarrow> False | Some network \<Rightarrow> wd_network wallet \<noteq> network) then False
      else if (case orElseStr (wf_name criteria) None of
            None \<Rightarrow> False | Some name \<Rightarrow> \<not> str_includes (wd_name wallet) name) then False
      else if (case orElseStr (wf_hash criteria) None of
            None \<Rightarrow> False
          | Some hash \<Rightarrow> \<not> str_includes (toLowerCase (wd_address wallet)) (toLowerCase hash))
        then False
      else (case orElseStr (wf_date criteria) None of
              None \<Rightarrow> True
            | Some date \<Rightarrow>
                (case (we_Date_parse env (wd_createdAt wallet), we_Date_parse env date) of
                   (Some walletDate, Some filterDate) \<Rightarrow> \<not> walletDate < filterDate
                 | _ \<Rightarrow> True)))"

text \<open>The loop of \<open>listWallets\<close>; its \<open>catch\<close> replaces any error by one message.\<close>

fun listWallets_loop ::
  "WalletEnv \<Rightarrow> WalletFilter \<Rightarrow> WalletStore \<Rightarrow> WalletData list \<Rightarrow> error + WalletData list" where
  "listWallets_loop env options [] wallets = Inr wallets"
| "listWallets_loop env options ((fileName, None) # rest) wallets = Inl FailedToListWallets"
| "listWallets_loop env options ((fileName, Some wallet) # rest) wallets =
     listWallets_loop env options rest
       (if matchesFilter env wallet options then wallets @ [wallet] else wallets)"

definition listWallets :: "WalletEnv \<Rightarrow> WalletStore \<Rightarrow> WalletFilter \<Rightarrow> error + WalletData list" where
  "listWallets env store options = listWallets_loop env options store []"

definition findWallets :: "WalletEnv \<Rightarrow> WalletStore \<Rightarrow> WalletFilter \<Rightarrow> error + WalletData list" where
  "findWallets env store criteria = listWallets env store criteria"

definition walletExists :: "WalletEnv \<Rightarrow> WalletStore \<Rightarrow> string \<Rightarrow> string \<Rightarrow> bool" where
  "walletExists env store name network =
     (case findWallets env store
             \<lparr>wf_name = Some name, wf_network = Some network, wf_date = None, wf_hash = None\<rparr> of
        Inl e \<Rightarrow> False
      | Inr wallets \<Rightarrow> length wallets > 0)"

text \<open>\<open>fs.writeFile\<close> on the store: a file of that name is replaced, a new one is added.\<close>

definition writeFile :: "string \<Rightarrow> WalletData \<Rightarrow> WalletStore \<Rightarrow> WalletStore" where
  "writeFile fileName wallet store =
     (if fileName \<in> fst ` set store
      then map (\<lambda>(f, c). if f = fileName then (f, Some wallet) else (f, c)) store
      else store @ [(fileName, Some wallet)])"

text \<open>
  \<open>saveWallet\<close> as \<open>importWallets\<close> calls it, with neither \<open>path\<close> nor \<open>output\<close> in the
  options: the file goes to \<open>walletsPath\<close> as JSON.
\<close>

definition saveWallet :: "WalletEnv \<Rightarrow> WalletStore \<Rightarrow> WalletData \<Rightarrow> (error + unit) \<times> WalletStore" where
  "saveWallet env store walletData =
     (let fileName = wd_name walletData @ ''-'' @ wd_network walletData @ ''-''
                       @ take 8 (wd_address walletData) @ ''.json''
      in case we_write_fails env fileName of
           Some t \<Rightarrow> (Inl (Rethrown t), store)
         | None \<Rightarrow> (Inr (), writeFile fileName walletData store))"

fun importWallets_loop ::
  "WalletEnv \<Rightarrow> string \<Rightarrow> bool \<Rightarrow> WalletData list \<Rightarrow> nat \<Rightarrow> nat \<Rightarrow> WalletStore
     \<Rightarrow> WalletImportResult \<times> WalletStore" where
  "importWallets_loop env network overwrite [] imported skipped store =
     (\<lparr>ir_imported = imported, ir_skipped = skipped\<rparr>, store)"
| "importWallets_loop env network overwrite (wallet # wallets) imported skipped store =
     (let exists = walletExists env store (wd_name wallet) network
      in if exists \<and> \<not> overwrite
         then importWallets_loop env network overwrite wallets imported (Suc skipped) store
         else
           (case saveWallet env store wallet of
              (Inr _, store') \<Rightarrow>
                importWallets_loop env network overwrite wallets (Suc imported) skipped store'
            | (Inl e, store') \<Rightarrow>
                importWallets_loop env network overwrite wallets imported (Suc skipped) store'))"

text \<open>
  \<open>importWallets\<close>. \<open>parsed\<close> is the outcome of reading the file and parsing it as JSON
  or CSV: the records, or what was thrown, which the outer \<open>catch\<close> rethrows.
\<close>

definition importWallets ::
  "WalletEnv \<Rightarrow> WalletStore \<Rightarrow> thrown + WalletData list \<Rightarrow> string \<Rightarrow> bool option
     \<Rightarrow> (error + WalletImportResult) \<times> WalletStore" where
  "importWallets env store parsed network overwrite =
     (case parsed of
        Inl t \<Rightarrow> (Inl (Rethrown t), store)
      | Inr wallets \<Rightarrow>
          (let (result, store') =
                 importWallets_loop env network (truthy overwrite) wallets 0 0 store
           in (Inr result, store')))"

section \<open>Concrete inputs\<close>

text \<open>Library answers, options and endpoint answers at which the theorems are exercised.\<close>

definition exampleLib :: CryptoLib where
  "exampleLib =
     \<lparr>bip39_generateMnemonic = ''legal winner thank year wave sausage worth useful legal winner thank yellow'',
      bip39_mnemonicToSeed = (\<lambda>mnemonic. [1, 2, 3]),
      bip32_fromSeed_derivePath = (\<lambda>seed path. \<lparr>key_privateKey = Some [7], key_publicKey = [2, 9]\<rparr>),
      ECPair_makeRandom = \<lparr>key_privateKey = Some [5], key_publicKey = [3, 1]\<rparr>,
      p2wpkh_address = (\<lambda>pubkey. Some ''bc1qw508d6qejxtdg4y5r3zarvary0c5xw7kv8f3t4''),
      toHex = (\<lambda>b. ''07''),
      randomBytes32 = replicate 32 0,
      Wallet_createRandom =
        \<lparr>ew_address = ''0x71C7656EC7ab88b098defB751B7401B5f6d8976F'', ew_privateKey = ''0x01'',
         ew_mnemonic = Some ''test test test test test test test test test test test junk''\<rparr>,
      Wallet_fromPrivateKey = (\<lambda>key.
        \<lparr>ew_address = ''0x71C7656EC7ab88b098defB751B7401B5f6d8976F'', ew_privateKey = ''0x00'',
         ew_mnemonic = None\<rparr>),
      Date_toISOString = ''2024-01-01T00:00:00.000Z''\<rparr>"

definition exampleOptions :: NetworkOptions where
  "exampleOptions =
     \<lparr>no_name = ''local'', no_rpcUrl = ''http://127.0.0.1:8545'', no_chainId = Some 1337,
      no_currency = None, no_explorer = None, no_testnet = None, no_timeout = None,
      no_maxGasPrice = Some ''50'', no_retryAttempts = Some 3\<rparr>"


definition exampleNetwork :: "string \<Rightarrow> bool \<Rightarrow> NetworkConfig" where
  "exampleNetwork name active =
     \<lparr>nc_name = name, nc_rpcUrl = ''http://127.0.0.1:8545'', nc_chainId = Some 1337,
      nc_currency = ''ETH'', nc_explorer = None, nc_isTestnet = Some False,
      nc_isActive = Some active, nc_lastValidated = Some 1700000000000,
      nc_maxGasPrice = None, nc_timeout = Some 10000, nc_retryAttempts = Some 3,
      nc_benchmarkResults = None, nc_monitoringEnabled = None,
      nc_monitoringInterval = None\<rparr>"

definition registryOf :: "NetworkConfig list \<Rightarrow> NetworkManager" where
  "registryOf networks =
     \<lparr>configFile = Some networks, providers = Map.empty, activeNetwork = None, trace = []\<rparr>"

definition healthyEnv :: ValidationEnv where
  "healthyEnv =
     \<lparr>ve_getNetwork = Resolves 1337, ve_getNetwork_ms = 20,
      ve_getBlockNumber = Resolves 812, ve_getGasPrice = Resolves 1000000000,
      ve_latencyCall = Resolves 812, ve_latency_ms = 15,
      ve_parseUnits_gwei = (\<lambda>s. Resolves 50000000000),
      ve_formatUnits_gwei = (\<lambda>wei. ''1.0'')\<rparr>"

definition reachable :: TestEnv where
  "reachable = \<lparr>te_getNetwork = Resolves 1337, te_getBlockNumber = Resolves 812, te_ms = 15\<rparr>"

definition unreachable :: TestEnv where
  "unreachable =
     \<lparr>te_getNetwork = Rejects (Error ''connect ECONNREFUSED 127.0.0.1:8545''),
      te_getBlockNumber = Rejects (Error ''connect ECONNREFUSED 127.0.0.1:8545''),
      te_ms = 3\<rparr>"

definition refusing :: ValidationEnv where
  "refusing =
     \<lparr>ve_getNetwork = Rejects (Error ''connect ECONNREFUSED 127.0.0.1:8545''),
      ve_getNetwork_ms = 3,
      ve_getBlockNumber = Rejects (Error ''connect ECONNREFUSED 127.0.0.1:8545''),
      ve_getGasPrice = Rejects (Error ''connect ECONNREFUSED 127.0.0.1:8545''),
      ve_latencyCall = Rejects (Error ''connect ECONNREFUSED 127.0.0.1:8545''),
      ve_latency_ms = 3,
      ve_parseUnits_gwei = (\<lambda>s. Resolves 50000000000),
      ve_formatUnits_gwei = (\<lambda>wei. ''0.0'')\<rparr>"

definition downStatus :: StatusEnv where
  "downStatus =
     \<lparr>se_getBlockNumber = Rejects (Error ''connect ECONNREFUSED 127.0.0.1:8545''),
      se_getNetwork = Rejects (Error ''connect ECONNREFUSED 127.0.0.1:8545''),
      se_getGasPrice = Rejects (Error ''connect ECONNREFUSED 127.0.0.1:8545''),
      se_eth_syncing = Rejects (Error ''connect ECONNREFUSED 127.0.0.1:8545''),
      se_net_peerCount = Rejects (Error ''connect ECONNREFUSED 127.0.0.1:8545''),
      se_formatUnits_gwei = (\<lambda>wei. ''0.0'')\<rparr>"

definition alwaysErrors :: BenchEnv where
  "alwaysErrors =
     \<lparr>be_load_ms = 0,
      be_calls = (\<lambda>i. \<lparr>bn_reply = Rejects (Error ''connect ECONNREFUSED 127.0.0.1:8545''),
                       bn_ms = 5, bn_overrun = 895\<rparr>),
      be_exit_ms = 0\<rparr>"

definition mostlyErrors :: BenchEnv where
  "mostlyErrors =
     \<lparr>be_load_ms = 0,
      be_calls = (\<lambda>i. \<lparr>bn_reply = (if i = 0 then Resolves 812
                                   else Rejects (Error ''connect ECONNREFUSED 127.0.0.1:8545'')),
                       bn_ms = 10, bn_overrun = 290\<rparr>),
      be_exit_ms = 0\<rparr>"

definition exampleWallet :: "string \<Rightarrow> string \<Rightarrow> WalletData" where
  "exampleWallet name address =
     \<lparr>wd_name = name, wd_network = ''ethereum'', wd_address = address,
      wd_privateKey = ''0x01'', wd_mnemonic = None,
      wd_createdAt = ''2024-01-01T00:00:00.000Z'',
      wd_filePath = None, wd_qrPath = None, wd_qrString = None\<rparr>"

definition quietDisk :: WalletEnv where
  "quietDisk = \<lparr>we_Date_parse = (\<lambda>text. Some 1704067200000), we_write_fails = (\<lambda>fileName. None)\<rparr>"

definition aliceStore :: WalletStore where
  "aliceStore = [(''alice-ethereum-0x71C765.json'', Some (exampleWallet ''alice'' ''0x71C7656EC7ab88b0''))]"

section \<open>Properties of BlockchainManager\<close>

lemma initializeNetworks_dom:
  "initializeNetworks k \<noteq> None \<longleftrightarrow> k \<in> set getSupportedNetworks"
  by (simp add: initializeNetworks_def evmNetworks_def getSupportedNetworks_def)

lemma generateWallet_not_unsupported:
  "initializeNetworks k = Some cfg \<Longrightarrow> bc_generateWallet cfg lib name um \<noteq> Inl (UnsupportedNetwork n)"
  by (auto simp: initializeNetworks_def evmNetworks_def bitcoinConfig_def evmConfig_def
      generateBitcoinWallet_def generateEVMWallet_def Let_def
      split: if_splits option.splits sum.splits)

text \<open>
  Claim C9. \<open>createWallet\<close> fails with the unsupported-network error exactly for the
  network strings whose lower-case form is none of bitcoin, ethereum, polygon, bsc,
  arbitrum, optimism and avalanche; so it can succeed only for those seven names,
  matched case-insensitively, and it fails with that error for solana and tezos.
\<close>

theorem createWallet_supported_names:
  "(createWallet lib name network useMnemonic = Inl (UnsupportedNetwork network)) =
     (toLowerCase network \<notin> {''bitcoin'', ''ethereum'', ''polygon'', ''bsc'', ''arbitrum'',
        ''optimism'', ''avalanche''})
   \<and> ((\<exists>w. createWallet lib name network useMnemonic = Inr w) \<longrightarrow>
        toLowerCase network \<in> {''bitcoin'', ''ethereum'', ''polygon'', ''bsc'', ''arbitrum'',
          ''optimism'', ''avalanche''})
   \<and> createWallet lib name ''solana'' useMnemonic = Inl (UnsupportedNetwork ''solana'')
   \<and> createWallet lib name ''tezos'' useMnemonic = Inl (UnsupportedNetwork ''tezos'')"
proof -
  have dom: "initializeNetworks k \<noteq> None \<longleftrightarrow>
      k \<in> {''bitcoin'', ''ethereum'', ''polygon'', ''bsc'', ''arbitrum'', ''optimism'', ''avalanche''}"
    for k
    using initializeNetworks_dom [of k]
    by (simp add: getSupportedNetworks_def evmNetworks_def)
  have unsupported:
    "(createWallet lib name n useMnemonic = Inl (UnsupportedNetwork n)) =
       (initializeNetworks (toLowerCase n) = None)" for n
    using generateWallet_not_unsupported [of "toLowerCase n"]
    by (auto simp: createWallet_def split: option.splits)
  have lower: "toLowerCase ''solana'' = ''solana''" "toLowerCase ''tezos'' = ''tezos''"
    by (simp_all add: toLowerCase_def lowerChar_def)
  show ?thesis
    using dom [of "toLowerCase network"] dom [of "''solana''"] dom [of "''tezos''"]
      unsupported [of network] unsupported [of "''solana''"] unsupported [of "''tezos''"] lower
    by auto
qed

theorem createWallet_supported_names_witness:
  "(\<exists>w. createWallet exampleLib ''alice'' ''Ethereum'' True = Inr w)
   \<and> toLowerCase ''Ethereum'' = ''ethereum''
   \<and> createWallet exampleLib ''alice'' ''Dogecoin'' True = Inl (UnsupportedNetwork ''Dogecoin'')"
proof -
  have lower: "toLowerCase ''Ethereum'' = ''ethereum''" "toLowerCase ''Dogecoin'' = ''dogecoin''"
    by (simp_all add: toLowerCase_def lowerChar_def)
  have ok: "\<exists>w. createWallet exampleLib ''alice'' ''Ethereum'' True = Inr w"
    by (simp add: createWallet_def lower initializeNetworks_def evmNetworks_def evmConfig_def
        generateEVMWallet_def Let_def)
  show ?thesis
    using createWallet_supported_names [of exampleLib "''alice''" "''Ethereum''" True]
      createWallet_supported_names [of exampleLib "''alice''" "''Dogecoin''" True] ok lower
    by simp
qed

text \<open>
  Claim C5. A wallet record returned by \<open>createWallet\<close> carries no mnemonic when it was
  created with \<open>useMnemonic = false\<close>, for the Bitcoin and for the EVM deriver; and it
  carries a mnemonic exactly when \<open>useMnemonic\<close> is true, given that the wallet ethers'
  \<open>Wallet.createRandom\<close> returns has its phrase (the EVM deriver reads it through
  \<open>wallet.mnemonic?.phrase\<close>; the Bitcoin deriver returns the phrase it generated).
\<close>

theorem mnemonic_iff_useMnemonic:
  assumes "createWallet lib name network useMnemonic = Inr w"
  shows "(\<not> useMnemonic \<longrightarrow> wd_mnemonic w = None)
       \<and> (ew_mnemonic (Wallet_createRandom lib) \<noteq> None \<longrightarrow>
            (wd_mnemonic w \<noteq> None) = useMnemonic)"
  using assms
  by (auto simp: createWallet_def initializeNetworks_def evmNetworks_def bitcoinConfig_def
      evmConfig_def generateBitcoinWallet_def generateEVMWallet_def Let_def toWalletData_def
      split: if_splits option.splits sum.splits)

theorem mnemonic_iff_useMnemonic_witness:
  "(\<exists>w. createWallet exampleLib ''alice'' ''bitcoin'' True = Inr w \<and> wd_mnemonic w \<noteq> None)
   \<and> (\<exists>w. createWallet exampleLib ''bob'' ''polygon'' False = Inr w \<and> wd_mnemonic w = None)
   \<and> ew_mnemonic (Wallet_createRandom exampleLib) \<noteq> None"
proof -
  have lower: "toLowerCase ''bitcoin'' = ''bitcoin''" "toLowerCase ''polygon'' = ''polygon''"
    by (simp_all add: toLowerCase_def lowerChar_def)
  have lib: "ew_mnemonic (Wallet_createRandom exampleLib) \<noteq> None"
    by (simp add: exampleLib_def)
  obtain w where w: "createWallet exampleLib ''alice'' ''bitcoin'' True = Inr w"
    by (simp add: createWallet_def lower initializeNetworks_def evmNetworks_def bitcoinConfig_def
        generateBitcoinWallet_def exampleLib_def Let_def)
  obtain v where v: "createWallet exampleLib ''bob'' ''polygon'' False = Inr v"
    by (simp add: createWallet_def lower initializeNetworks_def evmNetworks_def evmConfig_def
        generateEVMWallet_def Let_def)
  show ?thesis
    using mnemonic_iff_useMnemonic [OF w] mnemonic_iff_useMnemonic [OF v] w v lib
    by simp
qed

section \<open>Properties of validateNetwork\<close>



section \<open>Properties of the registry\<close>

lemma persisted_emit [simp]: "persisted (emit e s) = persisted s"
  by (simp add: persisted_def emit_def)

lemma persisted_saveNetworks [simp]: "persisted (saveNetworks s networks) = networks"
  by (simp add: saveNetworks_def persisted_def emit_def)

lemma loadNetworks_fst [simp]: "fst (loadNetworks s) = persisted s"
  by (simp add: loadNetworks_def persisted_def split: option.splits)

lemma loadNetworks_persisted [simp]: "persisted (snd (loadNetworks s)) = persisted s"
  by (simp add: loadNetworks_def persisted_def saveNetworks_def emit_def split: option.splits)

lemma persisted_providers [simp]: "persisted (s\<lparr>providers := p\<rparr>) = persisted s"
  by (simp add: persisted_def)

lemma persisted_activeNetwork [simp]: "persisted (s\<lparr>activeNetwork := a\<rparr>) = persisted s"
  by (simp add: persisted_def)

lemma getProvider_persisted [simp]: "persisted (snd (getProvider s networkName)) = persisted s"
proof -
  have "persisted (snd (loadNetworks s)) = persisted s" by simp
  then show ?thesis
    by (auto simp: getProvider_def Let_def case_prod_beta split: option.splits)
qed

lemma testNetwork_persisted [simp]:
  "persisted (snd (testNetwork s now env name timeout)) = persisted s"
proof (cases "orElseStr name (orElseStr (activeNetwork s) None)")
  case None
  then show ?thesis by (simp add: testNetwork_def)
next
  case (Some networkName)
  obtain r s1 where g: "getProvider s networkName = (r, s1)"
    by (cases "getProvider s networkName") auto
  have p: "persisted s1 = persisted s"
    using getProvider_persisted [of s networkName] g by simp
  show ?thesis
    using Some g p
    by (simp add: testNetwork_def split: sum.splits reply.splits prod.splits)
qed

lemma addNetwork_retry_persisted [simp]:
  "persisted (snd (addNetwork_retry attempt url maxRetries retryCount s)) = persisted s"
proof (induction attempt url maxRetries retryCount s rule: addNetwork_retry.induct)
  case (1 attempt url maxRetries retryCount s)
  show ?case
  proof (cases "retryCount < maxRetries")
    case False
    then show ?thesis by (subst addNetwork_retry.simps) simp
  next
    case True
    show ?thesis
    proof (cases "attempt (nat retryCount)")
      case (Inr v)
      with True show ?thesis by (subst addNetwork_retry.simps) (simp add: Let_def)
    next
      case (Inl e)
      show ?thesis
      proof (cases "retryCount + 1 = maxRetries")
        case True
        with Inl \<open>retryCount < maxRetries\<close> show ?thesis
          by (subst addNetwork_retry.simps) (simp add: Let_def)
      next
        case False
        with Inl \<open>retryCount < maxRetries\<close> "1.IH" [OF \<open>retryCount < maxRetries\<close> refl Inl False]
        show ?thesis
          by (subst addNetwork_retry.simps) (simp add: Let_def)
      qed
    qed
  qed
qed

lemma addNetwork_retry_returns:
  "addNetwork_retry (\<lambda>i. Inr (f i)) url maxRetries 0 s =
     (if 0 < maxRetries then (Inr (Some (f 0)), emit (Validated url) s) else (Inr None, s))"
  by (subst addNetwork_retry.simps) (simp add: Let_def)

lemma addNetwork_persisted:
  "persisted (snd (addNetwork s now envs options)) = persisted s
   \<or> (\<exists>n. persisted (snd (addNetwork s now envs options)) = persisted s @ [n]
          \<and> \<not> truthy (nc_isActive n) \<and> nc_name n \<notin> nc_name ` set (persisted s))"
proof -
  obtain looped s1 where l: "addNetwork_retry (\<lambda>i. Inr (validateNetwork options (envs i)))
       (no_rpcUrl options) (orElseNum (no_retryAttempts options) 3) 0 s = (looped, s1)"
    by (cases "addNetwork_retry (\<lambda>i. Inr (validateNetwork options (envs i)))
       (no_rpcUrl options) (orElseNum (no_retryAttempts options) 3) 0 s") auto
  have p1: "persisted s1 = persisted s"
    using addNetwork_retry_persisted [of "\<lambda>i. Inr (validateNetwork options (envs i))"
        "no_rpcUrl options" "orElseNum (no_retryAttempts options) 3" 0 s] l by simp
  obtain networks s2 where ld: "loadNetworks s1 = (networks, s2)"
    by (cases "loadNetworks s1") auto
  have p2: "networks = persisted s" "persisted s2 = persisted s"
    using loadNetworks_fst [of s1] loadNetworks_persisted [of s1] ld p1 by simp_all
  show ?thesis
    using l ld p1 p2
    by (auto simp: addNetwork_def Let_def truthy_def list_ex_iff image_iff
        split: sum.splits option.splits)
qed

lemma switchNetwork_persisted:
  "persisted (snd (switchNetwork s now env name)) = persisted s
   \<or> persisted (snd (switchNetwork s now env name)) =
        map (\<lambda>n. n\<lparr>nc_isActive := Some (nc_name n = name)\<rparr>) (persisted s)"
proof -
  obtain networks s1 where ld: "loadNetworks s = (networks, s1)"
    by (cases "loadNetworks s") auto
  have p: "networks = persisted s" "persisted s1 = persisted s"
    using loadNetworks_fst [of s] loadNetworks_persisted [of s] ld by simp_all
  show ?thesis
    using ld p
    by (auto simp: switchNetwork_def Let_def case_prod_beta split: option.splits)
qed

lemma removeNetwork_persisted:
  "persisted (snd (removeNetwork s name)) = persisted s
   \<or> (\<exists>i. persisted (snd (removeNetwork s name)) = splice1 i (persisted s))"
proof -
  obtain networks s1 where ld: "loadNetworks s = (networks, s1)"
    by (cases "loadNetworks s") auto
  have p: "networks = persisted s" "persisted s1 = persisted s"
    using loadNetworks_fst [of s] loadNetworks_persisted [of s] ld by simp_all
  show ?thesis
    using ld p
    by (auto simp: removeNetwork_def Let_def split: option.splits)
qed

lemma wellFormed_append:
  "wellFormed networks \<Longrightarrow> \<not> truthy (nc_isActive n) \<Longrightarrow> nc_name n \<notin> nc_name ` set networks
     \<Longrightarrow> wellFormed (networks @ [n])"
  by (simp add: wellFormed_def activeCount_def)

lemma filter_name_le_1: "distinct (map f xs) \<Longrightarrow> length (filter (\<lambda>x. f x = a) xs) \<le> 1"
  by (induction xs) (auto simp: filter_empty_conv image_iff)

lemma wellFormed_switch:
  "distinct (map nc_name networks) \<Longrightarrow>
     wellFormed (map (\<lambda>n. n\<lparr>nc_isActive := Some (nc_name n = name)\<rparr>) networks)"
  using filter_name_le_1 [of nc_name networks name]
  by (simp add: wellFormed_def activeCount_def truthy_def filter_map comp_def)

lemma splice1_simps [simp]:
  "splice1 i [] = []" "splice1 0 (x # xs) = xs" "splice1 (Suc i) (x # xs) = x # splice1 i xs"
  by (simp_all add: splice1_def)

lemma set_splice1: "set (splice1 i xs) \<subseteq> set xs"
proof (induction xs arbitrary: i)
  case Nil
  show ?case by simp
next
  case (Cons x xs)
  show ?case using Cons [of "i - 1"] by (cases i) auto
qed

lemma distinct_map_splice1: "distinct (map f xs) \<Longrightarrow> distinct (map f (splice1 i xs))"
proof (induction xs arbitrary: i)
  case Nil
  show ?case by simp
next
  case (Cons x xs)
  show ?case
  proof (cases i)
    case 0
    with Cons.prems show ?thesis by simp
  next
    case (Suc j)
    with Cons.prems Cons.IH [of j] set_splice1 [of j xs] show ?thesis by auto
  qed
qed

lemma filter_splice1_le: "length (filter P (splice1 i xs)) \<le> length (filter P xs)"
proof (induction xs arbitrary: i)
  case Nil
  show ?case by simp
next
  case (Cons x xs)
  show ?case using Cons [of "i - 1"] by (cases i) (auto intro: le_SucI)
qed

lemma wellFormed_splice1: "wellFormed networks \<Longrightarrow> wellFormed (splice1 i networks)"
  using distinct_map_splice1 [of nc_name networks i]
    filter_splice1_le [of "\<lambda>n. truthy (nc_isActive n)" i networks]
  by (simp add: wellFormed_def activeCount_def)

lemma step_wellFormed: "wellFormed (persisted s) \<Longrightarrow> wellFormed (persisted (step s c))"
proof (cases c)
  case (AddNetwork now envs options)
  assume "wellFormed (persisted s)"
  with AddNetwork addNetwork_persisted [of s now envs options] show ?thesis
    by (auto intro: wellFormed_append)
next
  case (SwitchNetwork now env name)
  assume "wellFormed (persisted s)"
  with SwitchNetwork switchNetwork_persisted [of s now env name]
    wellFormed_switch [of "persisted s" name]
  show ?thesis by (auto simp: wellFormed_def)
next
  case (RemoveNetwork name)
  assume "wellFormed (persisted s)"
  with RemoveNetwork removeNetwork_persisted [of s name] show ?thesis
    by (auto intro: wellFormed_splice1)
qed

lemma run_wellFormed: "wellFormed (persisted s) \<Longrightarrow> wellFormed (persisted (run s calls))"
  unfolding run_def
  by (induction calls arbitrary: s) (simp_all add: step_wellFormed)

lemma findIndex_SomeD: "findIndex P xs = Some i \<Longrightarrow> i < length xs \<and> P (xs ! i)"
proof (induction xs arbitrary: i)
  case Nil
  then show ?case by simp
next
  case (Cons x xs)
  then show ?case by (cases "P x") auto
qed

lemma findIndex_None_iff: "findIndex P xs = None \<longleftrightarrow> (\<forall>x \<in> set xs. \<not> P x)"
  by (induction xs) auto

lemma removeNetwork_active:
  assumes "distinct (map nc_name (persisted s))" and "n \<in> set (persisted s)"
    and "truthy (nc_isActive n)"
  shows "removeNetwork s (nc_name n) = (Inl CannotRemoveActiveNetwork, s)"
proof -
  from assms(2) obtain networks where cf: "configFile s = Some networks"
    by (cases "configFile s") (auto simp: persisted_def)
  then have p: "persisted s = networks" and ld: "loadNetworks s = (networks, s)"
    by (simp_all add: persisted_def loadNetworks_def)
  from assms(2) p have "findIndex (\<lambda>m. nc_name m = nc_name n) networks \<noteq> None"
    by (auto simp: findIndex_None_iff)
  then obtain i where i: "findIndex (\<lambda>m. nc_name m = nc_name n) networks = Some i"
    by auto
  from findIndex_SomeD [OF i] have "i < length networks" "nc_name (networks ! i) = nc_name n"
    by simp_all
  moreover from assms(1) p have "inj_on nc_name (set networks)"
    by (simp add: distinct_map)
  ultimately have "networks ! i = n"
    using assms(2) p by (auto dest: inj_onD)
  with assms(3) ld i show ?thesis
    by (simp add: removeNetwork_def)
qed

text \<open>
  Claim C1, as amended. Starting from a registry whose names are pairwise distinct and
  in which at most one network is active, after every sequence of \<open>addNetwork\<close>,
  \<open>switchNetwork\<close> and \<open>removeNetwork\<close> calls the persisted collection has at most
  one active network (and still distinct names), and \<open>removeNetwork\<close> applied to the
  name of an active network fails with the cannot-remove-active error and leaves the
  manager, and so the persisted collection, unchanged.
\<close>

theorem single_active_invariant:
  assumes "distinct (map nc_name (persisted s))" and "activeCount (persisted s) \<le> 1"
  shows "activeCount (persisted (run s calls)) \<le> 1
       \<and> distinct (map nc_name (persisted (run s calls)))
       \<and> (\<forall>n \<in> set (persisted (run s calls)). truthy (nc_isActive n) \<longrightarrow>
            removeNetwork (run s calls) (nc_name n)
              = (Inl CannotRemoveActiveNetwork, run s calls))"
proof -
  from assms have "wellFormed (persisted s)"
    by (simp add: wellFormed_def)
  then have "wellFormed (persisted (run s calls))"
    by (rule run_wellFormed)
  then show ?thesis
    by (auto simp: wellFormed_def intro: removeNetwork_active)
qed

text \<open>
  Without distinct names claim C1 fails: \<open>switchNetwork\<close> activates every entry that
  bears the name, so a file with two inactive entries named alike has two active
  entries after one switch.
\<close>

theorem single_active_counterexample:
  "activeCount (persisted (registryOf [exampleNetwork ''a'' False, exampleNetwork ''a'' False])) \<le> 1
   \<and> activeCount (persisted (run (registryOf [exampleNetwork ''a'' False, exampleNetwork ''a'' False])
        [SwitchNetwork 0 reachable ''a''])) = 2"
  by (simp add: run_def switchNetwork_def loadNetworks_def registryOf_def persisted_def
      activeCount_def exampleNetwork_def truthy_def testNetwork_def saveNetworks_def emit_def
      Let_def orElseStr_def getProvider_def reachable_def race_timeout_def orElseNum_def)

lemma example_run:
  "persisted (run (registryOf [exampleNetwork ''mainnet'' True, exampleNetwork ''local'' False])
      [AddNetwork 1700000000500 (\<lambda>i. healthyEnv) (exampleOptions\<lparr>no_name := ''sepolia''\<rparr>),
       SwitchNetwork 1700000000600 unreachable ''local'',
       RemoveNetwork ''mainnet''])
   = [exampleNetwork ''local'' True,
      (exampleNetwork ''sepolia'' False)\<lparr>nc_lastValidated := Some 1700000000500\<rparr>]"
  by (simp add: run_def switchNetwork_def loadNetworks_def registryOf_def persisted_def
      exampleNetwork_def truthy_def testNetwork_def saveNetworks_def emit_def
      Let_def orElseStr_def getProvider_def unreachable_def race_timeout_def orElseNum_def
      addNetwork_def addNetwork_retry_returns validateNetwork_def additionalChecks_def
      healthyEnv_def exampleOptions_def removeNetwork_def splice1_def truthyNum_def)

theorem single_active_invariant_witness:
  "distinct (map nc_name (persisted (registryOf [exampleNetwork ''mainnet'' True, exampleNetwork ''local'' False])))
   \<and> activeCount (persisted (registryOf [exampleNetwork ''mainnet'' True, exampleNetwork ''local'' False])) \<le> 1
   \<and> activeCount (persisted (run (registryOf [exampleNetwork ''mainnet'' True, exampleNetwork ''local'' False])
      [AddNetwork 1700000000500 (\<lambda>i. healthyEnv) (exampleOptions\<lparr>no_name := ''sepolia''\<rparr>),
       SwitchNetwork 1700000000600 unreachable ''local'',
       RemoveNetwork ''mainnet''])) \<le> 1
   \<and> removeNetwork (run (registryOf [exampleNetwork ''mainnet'' True, exampleNetwork ''local'' False])
      [AddNetwork 1700000000500 (\<lambda>i. healthyEnv) (exampleOptions\<lparr>no_name := ''sepolia''\<rparr>),
       SwitchNetwork 1700000000600 unreachable ''local'',
       RemoveNetwork ''mainnet'']) ''local''
     = (Inl CannotRemoveActiveNetwork,
        run (registryOf [exampleNetwork ''mainnet'' True, exampleNetwork ''local'' False])
      [AddNetwork 1700000000500 (\<lambda>i. healthyEnv) (exampleOptions\<lparr>no_name := ''sepolia''\<rparr>),
       SwitchNetwork 1700000000600 unreachable ''local'',
       RemoveNetwork ''mainnet''])"
proof -
  have pre: "distinct (map nc_name (persisted (registryOf [exampleNetwork ''mainnet'' True, exampleNetwork ''local'' False])))"
    "activeCount (persisted (registryOf [exampleNetwork ''mainnet'' True, exampleNetwork ''local'' False])) \<le> 1"
    by (simp_all add: registryOf_def persisted_def exampleNetwork_def activeCount_def truthy_def)
  have member: "exampleNetwork ''local'' True \<in> set (persisted (run (registryOf [exampleNetwork ''mainnet'' True, exampleNetwork ''local'' False])
      [AddNetwork 1700000000500 (\<lambda>i. healthyEnv) (exampleOptions\<lparr>no_name := ''sepolia''\<rparr>),
       SwitchNetwork 1700000000600 unreachable ''local'',
       RemoveNetwork ''mainnet'']))"
    by (simp add: example_run)
  have active: "truthy (nc_isActive (exampleNetwork ''local'' True))"
    "nc_name (exampleNetwork ''local'' True) = ''local''"
    by (simp_all add: exampleNetwork_def truthy_def)
  from single_active_invariant [OF pre, of "[AddNetwork 1700000000500 (\<lambda>i. healthyEnv) (exampleOptions\<lparr>no_name := ''sepolia''\<rparr>),
       SwitchNetwork 1700000000600 unreachable ''local'',
       RemoveNetwork ''mainnet'']"] member active pre
  show ?thesis by auto
qed

text \<open>
  Claim C2 at a failing input. \<open>switchNetwork\<close> awaits \<open>testNetwork\<close> and drops its
  result; \<open>testNetwork\<close> reports a failure as a value. With an endpoint that refuses the
  connection the test fails, and the switch still succeeds, persists the target as the
  active network and does so after the test.
\<close>

theorem switchNetwork_commits_after_failed_test:
  "tr_success (fst (testNetwork
       (registryOf [exampleNetwork ''mainnet'' True, exampleNetwork ''local'' False])
       1700000000600 unreachable (Some ''local'') None)) = False
   \<and> fst (switchNetwork
       (registryOf [exampleNetwork ''mainnet'' True, exampleNetwork ''local'' False])
       1700000000600 unreachable ''local'')
     = Inr \<lparr>sr_previousNetwork = Some ''mainnet'', sr_newNetwork = ''local'', sr_success = True\<rparr>
   \<and> persisted (snd (switchNetwork
       (registryOf [exampleNetwork ''mainnet'' True, exampleNetwork ''local'' False])
       1700000000600 unreachable ''local''))
     = [exampleNetwork ''mainnet'' False, exampleNetwork ''local'' True]
   \<and> trace (snd (switchNetwork
       (registryOf [exampleNetwork ''mainnet'' True, exampleNetwork ''local'' False])
       1700000000600 unreachable ''local''))
     = [Tested ''local'' False,
        Saved [exampleNetwork ''mainnet'' False, exampleNetwork ''local'' True]]"
  by (simp add: switchNetwork_def loadNetworks_def registryOf_def persisted_def
      exampleNetwork_def truthy_def testNetwork_def saveNetworks_def emit_def failedTest_def
      Let_def orElseStr_def getProvider_def unreachable_def race_timeout_def orElseNum_def)

text \<open>
  Claim C3 at a failing input. The retry loop of \<open>addNetwork\<close> repeats only when
  \<open>validateNetwork\<close> throws, which it never does: whatever the result, one validation
  is made and the loop is left. With \<open>retryAttempts = 3\<close> and an endpoint that refuses
  the connection, \<open>addNetwork\<close> validates once, never waits, and fails with the
  invalid-configuration error.
\<close>

theorem addNetwork_validates_once:
  "addNetwork_retry (\<lambda>i. Inr (validateNetwork options (envs i))) url maxRetries 0 s
     = (if 0 < maxRetries
        then (Inr (Some (validateNetwork options (envs 0))), emit (Validated url) s)
        else (Inr None, s))
   \<and> addNetwork (registryOf []) 1700000000500 (\<lambda>i. refusing) exampleOptions
     = (Inl (InvalidNetworkConfig (Some
          [''Connection refused. The RPC endpoint might be down or blocking requests.''])),
        (registryOf [])\<lparr>trace := [Validated ''http://127.0.0.1:8545'']\<rparr>)
   \<and> no_retryAttempts exampleOptions = Some 3"
proof -
  have v: "validateNetwork exampleOptions refusing =
      \<lparr>vr_isValid = False, vr_chainId = None,
       vr_errors = [''Connection refused. The RPC endpoint might be down or blocking requests.''],
       vr_warnings = [], vr_latency = None\<rparr>"
    by (simp add: validateNetwork_def refusing_def race_timeout_def connectionError_def)
  have opts: "no_retryAttempts exampleOptions = Some 3"
    "no_rpcUrl exampleOptions = ''http://127.0.0.1:8545''"
    by (simp_all add: exampleOptions_def)
  have a: "addNetwork (registryOf []) 1700000000500 (\<lambda>i. refusing) exampleOptions
     = (Inl (InvalidNetworkConfig (Some
          [''Connection refused. The RPC endpoint might be down or blocking requests.''])),
        (registryOf [])\<lparr>trace := [Validated ''http://127.0.0.1:8545'']\<rparr>)"
    by (simp add: addNetwork_def addNetwork_retry_returns v opts orElseNum_def emit_def
        registryOf_def)
  show ?thesis
    using a by (simp add: addNetwork_retry_returns opts)
qed

section \<open>Properties of cleanup\<close>

lemma getNetworkStatus_persisted [simp]:
  "persisted (snd (getNetworkStatus s now env name)) = persisted s"
proof (cases "orElseStr name (orElseStr (activeNetwork s) None)")
  case None
  then show ?thesis by (simp add: getNetworkStatus_def)
next
  case (Some networkName)
  obtain r s1 where g: "getProvider s networkName = (r, s1)"
    by (cases "getProvider s networkName") auto
  have p: "persisted s1 = persisted s"
    using getProvider_persisted [of s networkName] g by simp
  show ?thesis
    using Some g p
    by (simp add: getNetworkStatus_def split: sum.splits reply.splits prod.splits)
qed

lemma getNetworkStatus_connected:
  "getNetworkStatus s now env name = (Inr status, s1) \<Longrightarrow> st_isConnected status"
  by (auto simp: getNetworkStatus_def split: option.splits prod.splits sum.splits reply.splits)

lemma cleanup_network_inactive_only:
  assumes "cleanup_network now statuses \<lparr>co_inactive = inactive, co_unvalidated = None\<rparr>
             network removed s = (removed', s')"
  shows "removed' = removed \<and> persisted s' = persisted s"
proof (cases "truthyNum inactive")
  case False
  with assms show ?thesis
    by (simp add: cleanup_network_def cleanup_unvalidated_def)
next
  case True
  obtain r s1 where g: "getNetworkStatus s now (statuses (nc_name network)) (Some (nc_name network)) = (r, s1)"
    by (cases "getNetworkStatus s now (statuses (nc_name network)) (Some (nc_name network))") auto
  have p: "persisted s1 = persisted s"
    using getNetworkStatus_persisted [of s now "statuses (nc_name network)" "Some (nc_name network)"] g
    by simp
  show ?thesis
  proof (cases r)
    case (Inl e)
    with assms True g p show ?thesis by (simp add: cleanup_network_def)
  next
    case (Inr status)
    with g have "st_isConnected status" by (auto dest: getNetworkStatus_connected)
    with assms True g p Inr show ?thesis
      by (simp add: cleanup_network_def cleanup_unvalidated_def)
  qed
qed

lemma cleanup_loop_inactive_only:
  "cleanup_loop now statuses \<lparr>co_inactive = inactive, co_unvalidated = None\<rparr> networks removed s
     = (removed', s') \<Longrightarrow> removed' = removed \<and> persisted s' = persisted s"
proof (induction networks arbitrary: removed s)
  case Nil
  then show ?case by simp
next
  case (Cons network rest)
  obtain r1 s1 where one: "cleanup_network now statuses \<lparr>co_inactive = inactive, co_unvalidated = None\<rparr>
             network removed s = (r1, s1)"
    by (cases "cleanup_network now statuses \<lparr>co_inactive = inactive, co_unvalidated = None\<rparr>
             network removed s") auto
  from cleanup_network_inactive_only [OF one] have "r1 = removed" "persisted s1 = persisted s"
    by simp_all
  moreover from Cons.prems one have "cleanup_loop now statuses
      \<lparr>co_inactive = inactive, co_unvalidated = None\<rparr> rest r1 s1 = (removed', s')"
    by simp
  ultimately show ?case using Cons.IH [of r1 s1] by simp
qed

text \<open>
  Claim C4 at a failing input. \<open>getNetworkStatus\<close> never returns a status that is not
  connected: a failed check is a thrown error, which the \<open>catch\<close> of the loop swallows.
  So \<open>cleanup\<close> called with only the inactive threshold removes no network, whatever
  the status checks answer; with the endpoint of \<open>local\<close> refusing connections the
  check of \<open>local\<close> fails, and \<open>local\<close> stays in the file and out of the returned list.
\<close>

theorem cleanup_keeps_unreachable_network:
  "fst (cleanup s now statuses \<lparr>co_inactive = inactive, co_unvalidated = None\<rparr>) = []
   \<and> persisted (snd (cleanup s now statuses \<lparr>co_inactive = inactive, co_unvalidated = None\<rparr>))
       = persisted s
   \<and> fst (getNetworkStatus
        (registryOf [exampleNetwork ''mainnet'' True, exampleNetwork ''local'' False])
        1700000000700 downStatus (Some ''local''))
       = Inl (Rethrown (Error ''connect ECONNREFUSED 127.0.0.1:8545''))
   \<and> cleanup (registryOf [exampleNetwork ''mainnet'' True, exampleNetwork ''local'' False])
        1700000000700 (\<lambda>name. downStatus) \<lparr>co_inactive = Some 30, co_unvalidated = None\<rparr>
       = ([], (registryOf [exampleNetwork ''mainnet'' True, exampleNetwork ''local'' False])
                \<lparr>providers := [''mainnet'' \<mapsto> ''http://127.0.0.1:8545'',
                                ''local'' \<mapsto> ''http://127.0.0.1:8545'']\<rparr>)"
proof -
  obtain networks s1 where ld: "loadNetworks s = (networks, s1)"
    by (cases "loadNetworks s") auto
  have p1: "persisted s1 = persisted s"
    using loadNetworks_persisted [of s] ld by simp
  obtain removed' s' where lp: "cleanup_loop now statuses
      \<lparr>co_inactive = inactive, co_unvalidated = None\<rparr> networks [] s1 = (removed', s')"
    by (cases "cleanup_loop now statuses \<lparr>co_inactive = inactive, co_unvalidated = None\<rparr>
      networks [] s1") auto
  from cleanup_loop_inactive_only [OF lp] p1 have "removed' = []" "persisted s' = persisted s"
    by simp_all
  with ld lp have general:
    "fst (cleanup s now statuses \<lparr>co_inactive = inactive, co_unvalidated = None\<rparr>) = []"
    "persisted (snd (cleanup s now statuses \<lparr>co_inactive = inactive, co_unvalidated = None\<rparr>))
       = persisted s"
    by (simp_all add: cleanup_def)
  have status: "fst (getNetworkStatus
        (registryOf [exampleNetwork ''mainnet'' True, exampleNetwork ''local'' False])
        1700000000700 downStatus (Some ''local''))
       = Inl (Rethrown (Error ''connect ECONNREFUSED 127.0.0.1:8545''))"
    by (simp add: getNetworkStatus_def orElseStr_def getProvider_def loadNetworks_def
        registryOf_def exampleNetwork_def downStatus_def)
  have concrete: "cleanup (registryOf [exampleNetwork ''mainnet'' True, exampleNetwork ''local'' False])
        1700000000700 (\<lambda>name. downStatus) \<lparr>co_inactive = Some 30, co_unvalidated = None\<rparr>
       = ([], (registryOf [exampleNetwork ''mainnet'' True, exampleNetwork ''local'' False])
                \<lparr>providers := [''mainnet'' \<mapsto> ''http://127.0.0.1:8545'',
                                ''local'' \<mapsto> ''http://127.0.0.1:8545'']\<rparr>)"
    by (simp add: cleanup_def cleanup_network_def truthyNum_def getNetworkStatus_def
        orElseStr_def getProvider_def loadNetworks_def registryOf_def exampleNetwork_def
        downStatus_def)
  from general status concrete show ?thesis by simp
qed

section \<open>Properties of benchmarkNetwork\<close>

lemma getProvider_registered:
  assumes "find (\<lambda>n. nc_name n = name) (persisted s) \<noteq> None"
  shows "\<exists>url s1. getProvider s name = (Inr url, s1) \<and> persisted s1 = persisted s"
proof (cases "providers s name")
  case (Some url)
  then show ?thesis by (simp add: getProvider_def)
next
  case None
  obtain networks s1 where ld: "loadNetworks s = (networks, s1)"
    by (cases "loadNetworks s") auto
  have "networks = persisted s" "persisted s1 = persisted s"
    using loadNetworks_fst [of s] loadNetworks_persisted [of s] ld by simp_all
  with assms None ld show ?thesis
    by (auto simp: getProvider_def)
qed

lemma benchmark_loop_exit:
  "benchmark_loop env duration elapsed i results errors requestCount
     = (elapsed', n, results', errors', requestCount')
   \<Longrightarrow> duration * 1000 \<le> int elapsed'"
proof (induction env duration elapsed i results errors requestCount
    rule: benchmark_loop.induct)
  case (1 env duration elapsed i results errors requestCount)
  show ?case
  proof (cases "int elapsed < duration * 1000")
    case False
    with "1.prems" show ?thesis by (subst (asm) benchmark_loop.simps) simp
  next
    case True
    show ?thesis
    proof (cases "bn_reply (be_calls env i)")
      case (Resolves blockNumber)
      with True "1.prems" "1.IH"(2) [OF True Resolves] show ?thesis
        by (subst (asm) benchmark_loop.simps) simp
    next
      case (Rejects t)
      with True "1.prems" "1.IH"(1) [OF True Rejects] show ?thesis
        by (subst (asm) benchmark_loop.simps) simp
    qed
  qed
qed

lemma benchmark_loop_counts:
  "benchmark_loop env duration elapsed i results errors requestCount
     = (elapsed', n, results', errors', requestCount')
   \<Longrightarrow> i \<le> n
     \<and> requestCount' = requestCount
          + length (filter (\<lambda>k. resolved (bn_reply (be_calls env k))) [i..<n])
     \<and> length errors' = length errors
          + length (filter (\<lambda>k. \<not> resolved (bn_reply (be_calls env k))) [i..<n])"
proof (induction env duration elapsed i results errors requestCount
    rule: benchmark_loop.induct)
  case (1 env duration elapsed i results errors requestCount)
  show ?case
  proof (cases "int elapsed < duration * 1000")
    case False
    with "1.prems" show ?thesis by (subst (asm) benchmark_loop.simps) simp
  next
    case True
    show ?thesis
    proof (cases "bn_reply (be_calls env i)")
      case (Resolves blockNumber)
      from True Resolves "1.prems" have rec: "benchmark_loop env duration
          (elapsed + bn_ms (be_calls env i) + 100 + bn_overrun (be_calls env i)) (Suc i)
          (results @ [bn_ms (be_calls env i)]) errors (Suc requestCount)
          = (elapsed', n, results', errors', requestCount')"
        by (subst (asm) benchmark_loop.simps) simp
      from "1.IH"(2) [OF True Resolves rec] have ih: "Suc i \<le> n"
        "requestCount' = Suc requestCount
          + length (filter (\<lambda>k. resolved (bn_reply (be_calls env k))) [Suc i..<n])"
        "length errors' = length errors
          + length (filter (\<lambda>k. \<not> resolved (bn_reply (be_calls env k))) [Suc i..<n])"
        by simp_all
      from ih(1) have "[i..<n] = i # [Suc i..<n]" by (simp add: upt_rec)
      with ih Resolves show ?thesis by (simp add: resolved_def)
    next
      case (Rejects t)
      from True Rejects "1.prems" have rec: "benchmark_loop env duration
          (elapsed + bn_ms (be_calls env i) + 100 + bn_overrun (be_calls env i)) (Suc i)
          results (errors @ [t]) requestCount
          = (elapsed', n, results', errors', requestCount')"
        by (subst (asm) benchmark_loop.simps) simp
      from "1.IH"(1) [OF True Rejects rec] have ih: "Suc i \<le> n"
        "requestCount' = requestCount
          + length (filter (\<lambda>k. resolved (bn_reply (be_calls env k))) [Suc i..<n])"
        "length errors' = length (errors @ [t])
          + length (filter (\<lambda>k. \<not> resolved (bn_reply (be_calls env k))) [Suc i..<n])"
        by simp_all
      from ih(1) have "[i..<n] = i # [Suc i..<n]" by (simp add: upt_rec)
      with ih Rejects show ?thesis by (simp add: resolved_def)
    qed
  qed
qed

lemma benchmarkNetwork_result:
  assumes "find (\<lambda>n. nc_name n = name) (persisted s) \<noteq> None"
    and "benchmark_loop env duration (be_load_ms env) 0 [] [] 0
           = (elapsed, n, results, errors, requestCount)"
  shows "\<exists>r s'. benchmarkNetwork s now env name duration = (Inr r, s')
     \<and> br_requestsPerSecond r
         = js_div (of_nat requestCount) (of_nat (elapsed + be_exit_ms env) / 1000)
     \<and> br_errorRate r
         = (if requestCount > 0 then js_div (of_nat (length errors)) (of_nat requestCount)
            else Finite 1)"
proof -
  from getProvider_registered [OF assms(1)] obtain url s1
    where g: "getProvider s name = (Inr url, s1)" and p1: "persisted s1 = persisted s"
    by auto
  obtain networks s2 where ld: "loadNetworks s1 = (networks, s2)"
    by (cases "loadNetworks s1") auto
  have "networks = persisted s"
    using loadNetworks_fst [of s1] ld p1 by simp
  with assms(1) obtain network where f: "find (\<lambda>n. nc_name n = name) networks = Some network"
    by auto
  show ?thesis
    using g ld f assms(2)
    by (simp add: benchmarkNetwork_def Let_def)
qed

lemma benchmarkNetwork_registered:
  assumes "benchmarkNetwork s now env name duration = (Inr r, s')"
  shows "find (\<lambda>n. nc_name n = name) (persisted s) \<noteq> None"
proof -
  obtain g s1 where g: "getProvider s name = (g, s1)"
    by (cases "getProvider s name") auto
  have p1: "persisted s1 = persisted s"
    using getProvider_persisted [of s name] g by simp
  obtain networks s2 where ld: "loadNetworks s1 = (networks, s2)"
    by (cases "loadNetworks s1") auto
  have "networks = persisted s"
    using loadNetworks_fst [of s1] ld p1 by simp
  with assms g ld show ?thesis
    by (auto simp: benchmarkNetwork_def Let_def split: sum.splits option.splits)
qed

text \<open>
  Claim C7, as amended. For a network that is in the registry and an endpoint whose
  liveness call rejects every time, \<open>benchmarkNetwork\<close> returns a result (it does not
  throw) with \<open>errorRate = 1\<close>, and, when the duration is positive, with
  \<open>requestsPerSecond = 0\<close> (time has then passed when the loop ends, so the quotient is
  \<open>0\<close> and not \<open>0/0\<close>).
\<close>

theorem benchmarkNetwork_always_errors:
  assumes "find (\<lambda>n. nc_name n = name) (persisted s) \<noteq> None"
    and "\<forall>i. \<not> resolved (bn_reply (be_calls env i))"
  shows "\<exists>r s'. benchmarkNetwork s now env name duration = (Inr r, s')
     \<and> br_errorRate r = Finite 1
     \<and> (0 < duration \<longrightarrow> br_requestsPerSecond r = Finite 0)"
proof -
  obtain elapsed n results errors requestCount
    where loop: "benchmark_loop env duration (be_load_ms env) 0 [] [] 0
           = (elapsed, n, results, errors, requestCount)"
    by (cases "benchmark_loop env duration (be_load_ms env) 0 [] [] 0") auto
  from benchmark_loop_counts [OF loop] assms(2) have none: "requestCount = 0"
    by simp
  have "(of_nat (elapsed + be_exit_ms env) :: rat) / 1000 \<noteq> 0" if "0 < duration"
  proof -
    from benchmark_loop_exit [OF loop] that have "0 < elapsed" by simp
    then show ?thesis by simp
  qed
  with benchmarkNetwork_result [OF assms(1) loop, of now] none show ?thesis
    by (auto simp: js_div_def)
qed

lemma alwaysErrors_loop:
  "benchmark_loop alwaysErrors 1 0 0 [] [] 0
     = (1000, 1, [], [Error ''connect ECONNREFUSED 127.0.0.1:8545''], 0)"
  by (simp add: benchmark_loop.simps alwaysErrors_def)

lemma mostlyErrors_loop:
  "benchmark_loop mostlyErrors 1 0 0 [] [] 0
     = (1200, 3, [10], [Error ''connect ECONNREFUSED 127.0.0.1:8545'',
                        Error ''connect ECONNREFUSED 127.0.0.1:8545''], 1)"
  by (simp add: benchmark_loop.simps mostlyErrors_def)

lemma local_registered:
  "find (\<lambda>n. nc_name n = ''local'') (persisted (registryOf [exampleNetwork ''local'' False])) \<noteq> None"
  by (simp add: persisted_def registryOf_def exampleNetwork_def)

theorem benchmarkNetwork_always_errors_witness:
  "find (\<lambda>n. nc_name n = ''local'') (persisted (registryOf [exampleNetwork ''local'' False])) \<noteq> None
   \<and> (\<forall>i. \<not> resolved (bn_reply (be_calls alwaysErrors i)))
   \<and> (\<exists>r s'. benchmarkNetwork (registryOf [exampleNetwork ''local'' False]) 1700000000800
                 alwaysErrors ''local'' 1 = (Inr r, s')
         \<and> br_errorRate r = Finite 1 \<and> br_requestsPerSecond r = Finite 0)"
proof -
  have rejects: "\<forall>i. \<not> resolved (bn_reply (be_calls alwaysErrors i))"
    by (simp add: alwaysErrors_def resolved_def)
  from benchmarkNetwork_always_errors [OF local_registered rejects, of 1700000000800 1]
    local_registered rejects
  show ?thesis by simp
qed

text \<open>
  Claim C7 as stated fails at duration 0: the loop issues no call, and when the clock
  has not advanced since \<open>startTime\<close> was read the quotient \<open>requestCount / totalTime\<close>
  is \<open>0/0\<close>, so \<open>requestsPerSecond\<close> is \<open>NaN\<close>. The network is registered and every
  liveness call of the endpoint \<open>alwaysErrors\<close> rejects.
\<close>

theorem benchmarkNetwork_always_errors_counterexample:
  "map nc_name (persisted (registryOf [exampleNetwork ''local'' False])) = [''local'']
   \<and> benchmark_loop alwaysErrors 0 (be_load_ms alwaysErrors) 0 [] [] 0 = (0, 0, [], [], 0)
   \<and> fst (benchmarkNetwork (registryOf [exampleNetwork ''local'' False]) 1700000000800
          alwaysErrors ''local'' 0)
     = Inr \<lparr>br_success = True, br_requestsPerSecond = NaN, br_averageLatency = Finite 0,
            br_maxLatency = 0, br_minLatency = 0, br_errorRate = Finite 1,
            br_timestamp = 1700000000800\<rparr>"
proof -
  have loop: "benchmark_loop alwaysErrors 0 (be_load_ms alwaysErrors) 0 [] [] 0 = (0, 0, [], [], 0)"
    by (subst benchmark_loop.simps) (simp add: alwaysErrors_def)
  have exit: "be_exit_ms alwaysErrors = 0"
    by (simp add: alwaysErrors_def)
  have names: "map nc_name (persisted (registryOf [exampleNetwork ''local'' False])) = [''local'']"
    by (simp add: persisted_def registryOf_def exampleNetwork_def)
  have "fst (benchmarkNetwork (registryOf [exampleNetwork ''local'' False]) 1700000000800
          alwaysErrors ''local'' 0)
     = Inr \<lparr>br_success = True, br_requestsPerSecond = NaN, br_averageLatency = Finite 0,
            br_maxLatency = 0, br_minLatency = 0, br_errorRate = Finite 1,
            br_timestamp = 1700000000800\<rparr>"
    by (simp add: benchmarkNetwork_def getProvider_def loadNetworks_def registryOf_def
        exampleNetwork_def loop exit js_div_def Let_def del: benchmark_loop.simps)
  with loop names show ?thesis by simp
qed

text \<open>
  Claim C10, as amended. In a benchmark run that returns a result, \<open>requestCount\<close> is
  the number of liveness calls that succeeded among the \<open>n\<close> calls issued, so
  \<open>requestsPerSecond\<close> is that number over the elapsed seconds; \<open>errorRate\<close> is the
  number of failed calls over the number of successful calls when at least one call
  succeeded, and 1 when none did. Hence with at least one successful call and more
  failed than successful calls the reported \<open>errorRate\<close> exceeds 1.
\<close>

theorem benchmarkNetwork_errorRate:
  assumes "benchmarkNetwork s now env name duration = (Inr r, s')"
    and "benchmark_loop env duration (be_load_ms env) 0 [] [] 0
           = (elapsed, n, results, errors, requestCount)"
  shows "requestCount = successes env n \<and> length errors = failures env n
     \<and> br_requestsPerSecond r
         = js_div (of_nat (successes env n)) (of_nat (elapsed + be_exit_ms env) / 1000)
     \<and> br_errorRate r
         = (if 0 < successes env n
            then Finite (of_nat (failures env n) / of_nat (successes env n))
            else Finite 1)
     \<and> (0 < successes env n \<and> successes env n < failures env n
          \<longrightarrow> (\<exists>q. br_errorRate r = Finite q \<and> 1 < q))"
proof -
  from benchmark_loop_counts [OF assms(2)]
  have counts: "requestCount = successes env n" "length errors = failures env n"
    by (simp_all add: successes_def failures_def)
  from benchmarkNetwork_result [OF benchmarkNetwork_registered [OF assms(1)] assms(2), of now]
    assms(1)
  have fields: "br_requestsPerSecond r
         = js_div (of_nat requestCount) (of_nat (elapsed + be_exit_ms env) / 1000)"
    "br_errorRate r
         = (if requestCount > 0 then js_div (of_nat (length errors)) (of_nat requestCount)
            else Finite 1)"
    by auto
  have rate: "br_errorRate r
         = (if 0 < successes env n
            then Finite (of_nat (failures env n) / of_nat (successes env n))
            else Finite 1)"
    using fields(2) counts by (simp add: js_div_def)
  have "1 < (of_nat (failures env n) :: rat) / of_nat (successes env n)"
    if "0 < successes env n" "successes env n < failures env n"
    using that by simp
  with rate counts fields(1) show ?thesis
    by auto
qed

theorem benchmarkNetwork_errorRate_witness:
  "(\<exists>r s'. benchmarkNetwork (registryOf [exampleNetwork ''local'' False]) 1700000000800
              mostlyErrors ''local'' 1 = (Inr r, s')
      \<and> br_errorRate r = Finite 2 \<and> br_requestsPerSecond r = Finite (5 / 6))
   \<and> benchmark_loop mostlyErrors 1 (be_load_ms mostlyErrors) 0 [] [] 0
       = (1200, 3, [10], [Error ''connect ECONNREFUSED 127.0.0.1:8545'',
                          Error ''connect ECONNREFUSED 127.0.0.1:8545''], 1)
   \<and> successes mostlyErrors 3 = 1 \<and> failures mostlyErrors 3 = 2"
proof -
  have loop: "benchmark_loop mostlyErrors 1 (be_load_ms mostlyErrors) 0 [] [] 0
       = (1200, 3, [10], [Error ''connect ECONNREFUSED 127.0.0.1:8545'',
                          Error ''connect ECONNREFUSED 127.0.0.1:8545''], 1)"
    using mostlyErrors_loop by (simp add: mostlyErrors_def)
  from benchmarkNetwork_result [OF local_registered loop, of 1700000000800]
  obtain r s' where run: "benchmarkNetwork (registryOf [exampleNetwork ''local'' False])
      1700000000800 mostlyErrors ''local'' 1 = (Inr r, s')"
    by auto
  have exit: "be_exit_ms mostlyErrors = 0"
    by (simp add: mostlyErrors_def)
  note t = benchmarkNetwork_errorRate [OF run loop]
  from t have counts: "successes mostlyErrors 3 = 1" "failures mostlyErrors 3 = 2"
    by simp_all
  from t have "br_errorRate r = Finite 2" "br_requestsPerSecond r = Finite (5 / 6)"
    by (simp_all add: counts exit js_div_def)
  with run loop counts show ?thesis by auto
qed

text \<open>
  Claim C10 as stated fails when no call succeeds: the failed calls outnumber the
  successful ones, and the guard \<open>requestCount > 0 ? ... : 1\<close> reports \<open>errorRate = 1\<close>.
\<close>

theorem benchmarkNetwork_errorRate_counterexample:
  "fst (benchmarkNetwork (registryOf [exampleNetwork ''local'' False]) 1700000000800
          alwaysErrors ''local'' 1)
     = Inr \<lparr>br_success = False, br_requestsPerSecond = Finite 0, br_averageLatency = Finite 0,
            br_maxLatency = 0, br_minLatency = 0, br_errorRate = Finite 1,
            br_timestamp = 1700000000800\<rparr>
   \<and> benchmark_loop alwaysErrors 1 (be_load_ms alwaysErrors) 0 [] [] 0
       = (1000, 1, [], [Error ''connect ECONNREFUSED 127.0.0.1:8545''], 0)
   \<and> successes alwaysErrors 1 = 0 \<and> failures alwaysErrors 1 = 1"
proof -
  have loop: "benchmark_loop alwaysErrors 1 (be_load_ms alwaysErrors) 0 [] [] 0
       = (1000, 1, [], [Error ''connect ECONNREFUSED 127.0.0.1:8545''], 0)"
    using alwaysErrors_loop by (simp add: alwaysErrors_def)
  have exit: "be_exit_ms alwaysErrors = 0"
    by (simp add: alwaysErrors_def)
  have "fst (benchmarkNetwork (registryOf [exampleNetwork ''local'' False]) 1700000000800
          alwaysErrors ''local'' 1)
     = Inr \<lparr>br_success = False, br_requestsPerSecond = Finite 0, br_averageLatency = Finite 0,
            br_maxLatency = 0, br_minLatency = 0, br_errorRate = Finite 1,
            br_timestamp = 1700000000800\<rparr>"
    by (simp add: benchmarkNetwork_def getProvider_def loadNetworks_def registryOf_def
        exampleNetwork_def loop exit js_div_def Let_def del: benchmark_loop.simps)
  moreover have "successes alwaysErrors 1 = 0" "failures alwaysErrors 1 = 1"
    by (simp_all add: successes_def failures_def alwaysErrors_def resolved_def)
  ultimately show ?thesis using loop by simp
qed

section \<open>Properties of importWallets\<close>

text \<open>
  Claim C8 at a failing input. \<open>walletExists\<close> goes through the list filter, whose name
  test is \<open>wallet.name.includes(filter.name)\<close>. The store holds the wallet \<open>alice\<close> on
  ethereum only; of the three records \<open>alice\<close>, \<open>al\<close> and \<open>bob\<close> imported for ethereum
  without overwrite only \<open>alice\<close> collides, and the record \<open>al\<close> is skipped as well.
\<close>

theorem importWallets_skips_name_substring:
  "fst (importWallets quietDisk aliceStore
          (Inr [exampleWallet ''alice'' ''0x1111111111111111'',
                exampleWallet ''al'' ''0x2222222222222222'',
                exampleWallet ''bob'' ''0x3333333333333333''])
          ''ethereum'' (Some False))
     = Inr \<lparr>ir_imported = 1, ir_skipped = 2\<rparr>
   \<and> map fst (snd (importWallets quietDisk aliceStore
          (Inr [exampleWallet ''alice'' ''0x1111111111111111'',
                exampleWallet ''al'' ''0x2222222222222222'',
                exampleWallet ''bob'' ''0x3333333333333333''])
          ''ethereum'' (Some False)))
     = [''alice-ethereum-0x71C765.json'', ''bob-ethereum-0x333333.json'']
   \<and> walletExists quietDisk aliceStore ''al'' ''ethereum''
   \<and> map (map_option wd_name \<circ> snd) aliceStore = [Some ''alice'']"
  by (simp add: importWallets_def walletExists_def findWallets_def listWallets_def
      matchesFilter_def orElseStr_def saveWallet_def writeFile_def truthy_def
      exampleWallet_def quietDisk_def aliceStore_def Let_def)

end
